theory Spec2Isabelle
  imports Complex_Main "HOL-Library.Sublist"
begin

section \<open>Common data\<close>

text \<open>
  Wall-clock readings (\<^verbatim>\<open>time.time()\<close>) and durations are seconds, modelled as
  real numbers. The process environment (\<^verbatim>\<open>os.getenv\<close>) is a map from variable
  names to values. A decoded JSON object is an association list; only the value shapes
  the code inspects are kept.
\<close>

type_synonym time = real

type_synonym env = "string \<rightharpoonup> string"

datatype jval = JStr string | JNum real | JStrs "string list"

type_synonym pydict = "(string \<times> jval) list"

text \<open>\<^verbatim>\<open>os.getenv(name, default)\<close>.\<close>

definition getenv_default :: "env \<Rightarrow> string \<Rightarrow> string \<Rightarrow> string" where
  "getenv_default ev name dflt = (case ev name of None \<Rightarrow> dflt | Some v \<Rightarrow> v)"

text \<open>
  \<^verbatim>\<open>x or y\<close> for an optional string \<open>x\<close>: \<^verbatim>\<open>None\<close> and the empty string are both
  falsy.
\<close>

definition str_or :: "string option \<Rightarrow> string \<Rightarrow> string" where
  "str_or x y = (case x of None \<Rightarrow> y | Some s \<Rightarrow> if s = [] then y else s)"

text \<open>\<^verbatim>\<open>not x\<close> for an optional string.\<close>

definition falsy :: "string option \<Rightarrow> bool" where
  "falsy x = (case x of None \<Rightarrow> True | Some s \<Rightarrow> s = [])"

text \<open>
  \<^verbatim>\<open>str.lower()\<close> on a string of Latin-1 code points: the ASCII capitals and the
  Latin-1 capitals \<open>0xC0..0xDE\<close> (except the multiplication sign \<open>0xD7\<close>) move up by 32.
\<close>

definition lower_char :: "char \<Rightarrow> char" where
  "lower_char c =
     (let n = of_char c :: nat in
      if (65 \<le> n \<and> n \<le> 90) \<or> (192 \<le> n \<and> n \<le> 222 \<and> n \<noteq> 215)
      then char_of (n + 32) else c)"

definition lower :: "string \<Rightarrow> string" where
  "lower s = map lower_char s"

text \<open>
  \<^verbatim>\<open>str.split()\<close> with no argument: the maximal runs of non-whitespace characters.
  Whitespace is what \<^verbatim>\<open>str.isspace\<close> accepts among the Latin-1 code points.
\<close>

definition is_space :: "char \<Rightarrow> bool" where
  "is_space c =
     (let n = of_char c :: nat in
      (9 \<le> n \<and> n \<le> 13) \<or> (28 \<le> n \<and> n \<le> 32) \<or> n = 133 \<or> n = 160)"

fun split_ws :: "string \<Rightarrow> string \<Rightarrow> string list" where
  "split_ws cur [] = (if cur = [] then [] else [cur])"
| "split_ws cur (c # cs) =
     (if is_space c then (if cur = [] then split_ws [] cs else cur # split_ws [] cs)
      else split_ws (cur @ [c]) cs)"

definition py_split :: "string \<Rightarrow> string list" where
  "py_split s = split_ws [] s"

section \<open>Bearer token verifier (agents/appointments_agent/middleware.py)\<close>

text \<open>
  Exceptions. \<^verbatim>\<open>JWTError\<close> is the one class \<^verbatim>\<open>dispatch\<close> turns into a 401; every
  other exception (a \<^verbatim>\<open>KeyError\<close> on a missing dictionary member, a failed JWKS
  fetch, anything else the JOSE library raises) ends in the 500 branch. The plain
  \<^verbatim>\<open>Exception\<close> carries its message.
\<close>

datatype jwt_reason = Malformed | KeyNotFound | Rejected | InvalidAudience

datatype exn =
    JWTError jwt_reason
  | KeyError string
  | FetchError
  | JSONDecodeError
  | TimeoutError
  | NameError string
  | HTTPStatusError nat
  | Exception string
  | OtherError

text \<open>
  A JSON Web Key as fetched: every member may be absent. A JWKS document is modelled
  by its \<^verbatim>\<open>keys\<close> member; \<open>None\<close> stands for the empty object \<^verbatim>\<open>{}\<close>.
\<close>

record jwk =
  jwk_kty :: "string option"
  jwk_kid :: "string option"
  jwk_use :: "string option"
  jwk_n :: "string option"
  jwk_e :: "string option"

type_synonym jwks = "jwk list option"

record rsa_key =
  rsa_kty :: string
  rsa_kid :: string
  rsa_use :: string
  rsa_n :: string
  rsa_e :: string

text \<open>
  The JOSE library (\<^verbatim>\<open>jose.jwt\<close>) is outside the repository and is a parameter:
  \<^verbatim>\<open>get_unverified_header\<close>, \<^verbatim>\<open>get_unverified_claims\<close>, and \<^verbatim>\<open>decode\<close> called with
  \<^verbatim>\<open>algorithms=['RS256']\<close>, the expected issuer and the options
  \<^verbatim>\<open>verify_signature, verify_exp, verify_iss = True, verify_aud = False\<close>, at the
  current time. Each returns its value or raises.
\<close>

record jose =
  get_unverified_header :: "string \<Rightarrow> exn + pydict"
  get_unverified_claims :: "string \<Rightarrow> exn + pydict"
  decode :: "string \<Rightarrow> rsa_key \<Rightarrow> string \<Rightarrow> time \<Rightarrow> exn + pydict"

record middleware =
  jwks_url :: string
  issuer :: string
  required_scope :: string
  agent_id :: string
  api_resource_identifier :: string
  enabled :: bool
  valid_audiences :: "string list"
  jwks_cache :: "jwks option"
  jwks_cache_time :: "time option"
  jwks_cache_duration :: time
  public_paths :: "string list"

text \<open>\<^verbatim>\<open>AsgardeoJWTMiddleware.__init__\<close>.\<close>

definition middleware_init ::
  "env \<Rightarrow> string \<Rightarrow> string \<Rightarrow> string \<Rightarrow> string option \<Rightarrow> string option \<Rightarrow> bool \<Rightarrow> middleware"
where
  "middleware_init ev url iss scope aid ari en =
     (let a = str_or aid (getenv_default ev ''APPOINTMENTS_APP_ID'' '''');
          r = str_or ari (getenv_default ev ''API_RESOURCE_IDENTIFIER'' '''')
      in \<lparr> jwks_url = url, issuer = iss, required_scope = scope,
           agent_id = a, api_resource_identifier = r, enabled = en,
           valid_audiences = (if a \<noteq> [] then [a] else []) @ (if r \<noteq> [] then [r] else []),
           jwks_cache = None, jwks_cache_time = None, jwks_cache_duration = 86400,
           public_paths = [''/.well-known/agent-card.json'', ''/health''] \<rparr>)"

text \<open>\<^verbatim>\<open>_is_public_path\<close>.\<close>

definition is_public_path :: "middleware \<Rightarrow> string \<Rightarrow> bool" where
  "is_public_path m path = list_ex (\<lambda>public_path. prefix public_path path) (public_paths m)"

text \<open>
  \<^verbatim>\<open>_get_jwks\<close>. \<open>fetch\<close> is what the GET of the JWKS URL would yield (\<open>None\<close>: the
  request, the status check or the JSON decoding raises). The result carries the new
  middleware state and the number of GET requests sent.
\<close>

definition cache_fresh :: "middleware \<Rightarrow> time \<Rightarrow> bool" where
  "cache_fresh m current_time =
     (case (jwks_cache m, jwks_cache_time m) of
        (Some c, Some t) \<Rightarrow> current_time - t < jwks_cache_duration m
      | _ \<Rightarrow> False)"

definition get_jwks ::
  "middleware \<Rightarrow> time \<Rightarrow> jwks option \<Rightarrow> (exn + jwks) \<times> middleware \<times> nat"
where
  "get_jwks m current_time fetch =
     (if cache_fresh m current_time then (Inr (the (jwks_cache m)), m, 0)
      else
        (case fetch of
           Some d \<Rightarrow>
             (Inr d, m\<lparr>jwks_cache := Some d, jwks_cache_time := Some current_time\<rparr>, 1)
         | None \<Rightarrow>
             (case jwks_cache m of
                Some (Some ks) \<Rightarrow> (Inr (Some ks), m, 1)
              | _ \<Rightarrow> (Inl FetchError, m, 1))))"

text \<open>
  The key search of \<^verbatim>\<open>_validate_token\<close> (step 3): the first key whose \<^verbatim>\<open>kid\<close>
  equals the header's; reading an absent member raises \<^verbatim>\<open>KeyError\<close>.
\<close>

definition subscript :: "string option \<Rightarrow> string \<Rightarrow> exn + string" where
  "subscript v name = (case v of None \<Rightarrow> Inl (KeyError name) | Some s \<Rightarrow> Inr s)"

definition make_rsa_key :: "jwk \<Rightarrow> exn + rsa_key" where
  "make_rsa_key key =
     (case subscript (jwk_kty key) ''kty'' of Inl x \<Rightarrow> Inl x | Inr a \<Rightarrow>
     (case subscript (jwk_kid key) ''kid'' of Inl x \<Rightarrow> Inl x | Inr b \<Rightarrow>
     (case subscript (jwk_use key) ''use'' of Inl x \<Rightarrow> Inl x | Inr c \<Rightarrow>
     (case subscript (jwk_n key) ''n'' of Inl x \<Rightarrow> Inl x | Inr d \<Rightarrow>
     (case subscript (jwk_e key) ''e'' of Inl x \<Rightarrow> Inl x | Inr f \<Rightarrow>
        Inr \<lparr> rsa_kty = a, rsa_kid = b, rsa_use = c, rsa_n = d, rsa_e = f \<rparr>)))))"

fun find_key :: "jwk list \<Rightarrow> jval option \<Rightarrow> exn + rsa_key option" where
  "find_key [] key_id = Inr None"
| "find_key (key # keys) key_id =
     (case subscript (jwk_kid key) ''kid'' of
        Inl x \<Rightarrow> Inl x
      | Inr k \<Rightarrow>
          if Some (JStr k) = key_id
          then (case make_rsa_key key of Inl x \<Rightarrow> Inl x | Inr r \<Rightarrow> Inr (Some r))
          else find_key keys key_id)"

text \<open>\<^verbatim>\<open>token_audience not in self.valid_audiences\<close>, negated.\<close>

definition aud_in :: "jval option \<Rightarrow> string list \<Rightarrow> bool" where
  "aud_in token_audience auds =
     (case token_audience of Some (JStr a) \<Rightarrow> a \<in> set auds | _ \<Rightarrow> False)"

text \<open>
  \<^verbatim>\<open>_validate_token\<close>. The \<^verbatim>\<open>except JWTError\<close> clause re-raises a \<^verbatim>\<open>JWTError\<close>
  with a longer message; the message text is not modelled, the class and the cause are.
\<close>

definition validate_token ::
  "jose \<Rightarrow> middleware \<Rightarrow> time \<Rightarrow> jwks option \<Rightarrow> string \<Rightarrow> (exn + pydict) \<times> middleware \<times> nat"
where
  "validate_token lib m now fetch token =
     (case get_jwks m now fetch of
        (Inl x, m', k) \<Rightarrow> (Inl x, m', k)
      | (Inr doc, m', k) \<Rightarrow>
          (case get_unverified_header lib token of
             Inl x \<Rightarrow> (Inl x, m', k)
           | Inr unverified_header \<Rightarrow>
               (case doc of
                  None \<Rightarrow> (Inl (KeyError ''keys''), m', k)
                | Some keys \<Rightarrow>
                    (case find_key keys (map_of unverified_header ''kid'') of
                       Inl x \<Rightarrow> (Inl x, m', k)
                     | Inr None \<Rightarrow> (Inl (JWTError KeyNotFound), m', k)
                     | Inr (Some rsa) \<Rightarrow>
                         (case get_unverified_claims lib token of
                            Inl x \<Rightarrow> (Inl x, m', k)
                          | Inr unverified_payload \<Rightarrow>
                              (case decode lib token rsa (issuer m') now of
                                 Inl x \<Rightarrow> (Inl x, m', k)
                               | Inr payload \<Rightarrow>
                                   if valid_audiences m' \<noteq> []
                                      \<and> \<not> aud_in (map_of payload ''aud'') (valid_audiences m')
                                   then (Inl (JWTError InvalidAudience), m', k)
                                   else (Inr payload, m', k)))))))"

text \<open>
  \<^verbatim>\<open>dispatch\<close>. A request is its path and its \<^verbatim>\<open>Authorization\<close> header. The
  outcome is either the call of the next handler, with what was attached to
  \<^verbatim>\<open>request.state\<close> (nothing on the two bypass branches), or a JSON error response
  with its status and its \<^verbatim>\<open>error\<close> member.
\<close>

record request =
  path :: string
  authorization :: "string option"

datatype outcome =
    CallNext "pydict option"
  | JSONResponse nat string

definition dispatch ::
  "jose \<Rightarrow> middleware \<Rightarrow> time \<Rightarrow> jwks option \<Rightarrow> request \<Rightarrow> outcome \<times> middleware \<times> nat"
where
  "dispatch lib m now fetch req =
     (if \<not> enabled m then (CallNext None, m, 0)
      else if is_public_path m (path req) then (CallNext None, m, 0)
      else
        (case authorization req of
           None \<Rightarrow> (JSONResponse 401 ''unauthorized'', m, 0)
         | Some auth_header \<Rightarrow>
             if auth_header = [] then (JSONResponse 401 ''unauthorized'', m, 0)
             else
               (case py_split auth_header of
                  [scheme, token] \<Rightarrow>
                    if lower scheme \<noteq> ''bearer''
                    then (JSONResponse 401 ''invalid_request'', m, 0)
                    else
                      (case validate_token lib m now fetch token of
                         (Inr payload, m', k) \<Rightarrow> (CallNext (Some payload), m', k)
                       | (Inl (JWTError r), m', k) \<Rightarrow>
                           (JSONResponse 401 ''invalid_token'', m', k)
                       | (Inl x, m', k) \<Rightarrow> (JSONResponse 500 ''server_error'', m', k))
                | parts \<Rightarrow> (JSONResponse 401 ''invalid_request'', m, 0))))"

text \<open>
  \<^verbatim>\<open>create_jwt_middleware_from_env\<close>. The second component is what the factory
  prints.
\<close>

definition create_jwt_middleware_from_env ::
  "env \<Rightarrow> string \<Rightarrow> string option \<Rightarrow> middleware \<times> string list"
where
  "create_jwt_middleware_from_env ev scope aid =
     (let url = ev ''ASGARDEO_JWKS_URL'';
          iss = ev ''ASGARDEO_ISSUER'';
          en = (lower (getenv_default ev ''ASGARDEO_AUTH_ENABLED'' ''true'') = ''true'');
          aid' = str_or aid (getenv_default ev ''APPOINTMENTS_APP_ID'' '''');
          missing = (falsy url \<or> falsy iss)
      in (middleware_init ev (str_or url '''') (str_or iss '''') scope (Some aid') None
            (if missing then False else en),
          if missing
          then [''[Auth] Warning: Asgardeo configuration missing. Authentication disabled.'',
                ''[Auth] Set ASGARDEO_JWKS_URL and ASGARDEO_ISSUER to enable authentication.'']
          else []))"

text \<open>
  A key that carries the five members the key search reads (\<^verbatim>\<open>use\<close> among them).
\<close>

definition jwk_complete :: "jwk \<Rightarrow> bool" where
  "jwk_complete key =
     (jwk_kty key \<noteq> None \<and> jwk_kid key \<noteq> None \<and> jwk_use key \<noteq> None
      \<and> jwk_n key \<noteq> None \<and> jwk_e key \<noteq> None)"

text \<open>A library result that is a value or a \<^verbatim>\<open>JWTError\<close>, no other exception.\<close>

definition is_jwt_error :: "exn + 'a \<Rightarrow> bool" where
  "is_jwt_error r = (case r of Inl (JWTError x) \<Rightarrow> True | Inl y \<Rightarrow> False | Inr v \<Rightarrow> True)"

text \<open>
  On one token and the key found for it in one key set, the library calls that
  \<^verbatim>\<open>_validate_token\<close> makes return a value or raise \<^verbatim>\<open>JWTError\<close>. Nothing is asked of
  the library on other tokens or other keys.
\<close>

definition fails_as_jwt :: "jose \<Rightarrow> middleware \<Rightarrow> time \<Rightarrow> jwk list \<Rightarrow> string \<Rightarrow> bool" where
  "fails_as_jwt lib m now keys token =
     (is_jwt_error (get_unverified_header lib token)
      \<and> is_jwt_error (get_unverified_claims lib token)
      \<and> (\<forall>hdr rsa. get_unverified_header lib token = Inr hdr
                    \<and> find_key keys (map_of hdr ''kid'') = Inr (Some rsa)
                    \<longrightarrow> is_jwt_error (decode lib token rsa (issuer m) now)))"

text \<open>
  The audience of a token matches an accepted set in the sense of the specification:
  a string \<^verbatim>\<open>aud\<close> is a member, or an array \<^verbatim>\<open>aud\<close> holds a member.
\<close>

definition aud_matches :: "jval option \<Rightarrow> string list \<Rightarrow> bool" where
  "aud_matches token_audience auds =
     (case token_audience of
        Some (JStr a) \<Rightarrow> a \<in> set auds
      | Some (JStrs l) \<Rightarrow> list_ex (\<lambda>a. a \<in> set auds) l
      | _ \<Rightarrow> False)"

text \<open>
  A token that verifies against the key found for it and whose \<^verbatim>\<open>aud\<close> is an array
  holding an accepted audience.
\<close>

definition array_aud_hit :: "jose \<Rightarrow> middleware \<Rightarrow> time \<Rightarrow> jwk list \<Rightarrow> string \<Rightarrow> bool" where
  "array_aud_hit lib m now keys token =
     (\<exists>hdr rsa payload l.
        get_unverified_header lib token = Inr hdr
        \<and> find_key keys (map_of hdr ''kid'') = Inr (Some rsa)
        \<and> decode lib token rsa (issuer m) now = Inr payload
        \<and> map_of payload ''aud'' = Some (JStrs l)
        \<and> list_ex (\<lambda>a. a \<in> set (valid_audiences m)) l)"

text \<open>
  A sample library, key set and verifier for concrete runs: the one token \<open>tok\<close> is
  signed by the key \<open>k1\<close>, issued by \<open>idp\<close> for the audience \<open>other\<close>, and expires at
  time 1000.
\<close>

definition sample_payload :: pydict where
  "sample_payload =
     [(''iss'', JStr ''idp''), (''aud'', JStr ''other''), (''sub'', JStr ''alice''),
      (''exp'', JNum 1000)]"

definition sample_jose :: jose where
  "sample_jose =
     \<lparr> get_unverified_header =
         (\<lambda>t. if t = ''tok'' then Inr [(''alg'', JStr ''RS256''), (''kid'', JStr ''k1'')]
              else if t = ''old'' then Inr [(''alg'', JStr ''RS256''), (''kid'', JStr ''k0'')]
              else Inl (JWTError Malformed)),
       get_unverified_claims =
         (\<lambda>t. if t = ''tok'' \<or> t = ''old'' then Inr sample_payload
              else Inl (JWTError Malformed)),
       decode =
         (\<lambda>t key iss now.
            if t = ''tok'' \<and> rsa_n key = ''N1'' \<and> iss = ''idp'' \<and> now < 1000
            then Inr sample_payload else Inl (JWTError Rejected)) \<rparr>"

definition sample_keys :: "jwk list" where
  "sample_keys =
     [\<lparr> jwk_kty = Some ''RSA'', jwk_kid = Some ''k1'', jwk_use = Some ''sig'',
        jwk_n = Some ''N1'', jwk_e = Some ''AQAB'' \<rparr>]"

definition sample_request :: "string \<Rightarrow> request" where
  "sample_request t = \<lparr> path = ''/'', authorization = Some (''Bearer '' @ t) \<rparr>"

text \<open>
  The token a request presents: the second word of a two-word \<^verbatim>\<open>Authorization\<close>
  header whose first word is \<^verbatim>\<open>bearer\<close> in any letter case (step 4 of \<^verbatim>\<open>dispatch\<close>).
\<close>

definition bearer_token :: "request \<Rightarrow> string option" where
  "bearer_token req =
     (case authorization req of
        None \<Rightarrow> None
      | Some h \<Rightarrow>
          (case py_split h of
             [scheme, token] \<Rightarrow> if lower scheme = ''bearer'' then Some token else None
           | _ \<Rightarrow> None))"

text \<open>
  The acceptance condition of the specification, amended for the empty accepted set:
  the header parses, the key set holds a key with the header's \<^verbatim>\<open>kid\<close>, the library's \<^verbatim>\<open>decode\<close>
  (signature, expiry, issuer) returns the payload, and the accepted audience set is
  empty or the payload's \<^verbatim>\<open>aud\<close> matches a member of it.
\<close>

definition token_accepted ::
  "jose \<Rightarrow> middleware \<Rightarrow> time \<Rightarrow> jwk list \<Rightarrow> string \<Rightarrow> pydict \<Rightarrow> bool" where
  "token_accepted lib m now keys token payload =
     (\<exists>hdr rsa up.
        get_unverified_header lib token = Inr hdr
        \<and> find_key keys (map_of hdr ''kid'') = Inr (Some rsa)
        \<and> get_unverified_claims lib token = Inr up
        \<and> decode lib token rsa (issuer m) now = Inr payload
        \<and> (valid_audiences m = []
            \<or> aud_matches (map_of payload ''aud'') (valid_audiences m)))"

text \<open>
  Two more samples: a key set whose key has no \<^verbatim>\<open>use\<close> member, and a library whose
  token \<open>multi\<close> is signed by \<open>k1\<close> and carries an array \<^verbatim>\<open>aud\<close>.
\<close>

definition sample_keys_no_use :: "jwk list" where
  "sample_keys_no_use =
     [\<lparr> jwk_kty = Some ''RSA'', jwk_kid = Some ''k1'', jwk_use = None,
        jwk_n = Some ''N1'', jwk_e = Some ''AQAB'' \<rparr>]"

definition multi_payload :: pydict where
  "multi_payload =
     [(''iss'', JStr ''idp''), (''aud'', JStrs [''other'', ''second-api'']),
      (''sub'', JStr ''alice''), (''exp'', JNum 1000)]"

definition sample_jose_multi :: jose where
  "sample_jose_multi =
     \<lparr> get_unverified_header =
         (\<lambda>t. if t = ''multi'' then Inr [(''alg'', JStr ''RS256''), (''kid'', JStr ''k1'')]
              else Inl (JWTError Malformed)),
       get_unverified_claims =
         (\<lambda>t. if t = ''multi'' then Inr multi_payload else Inl (JWTError Malformed)),
       decode =
         (\<lambda>t key iss now.
            if t = ''multi'' \<and> rsa_n key = ''N1'' \<and> iss = ''idp'' \<and> now < 1000
            then Inr multi_payload else Inl (JWTError Rejected)) \<rparr>"

definition sample_middleware :: "string option \<Rightarrow> middleware" where
  "sample_middleware aid =
     middleware_init Map.empty ''https://idp/jwks'' ''idp'' ''appointments:read'' aid None True"

definition sample_warm :: "string option \<Rightarrow> middleware" where
  "sample_warm aid =
     (sample_middleware aid)\<lparr>jwks_cache := Some (Some sample_keys), jwks_cache_time := Some 10\<rparr>"

section \<open>Token exchanger (orchestrator/token_exchange.py)\<close>

text \<open>
  HTTP towards the identity provider. A request is the URL, the form data in the order
  the dictionary is built, and the \<^verbatim>\<open>Authorization\<close> header. \<open>Basic s\<close> stands for the
  header \<^verbatim>\<open>Basic base64(s)\<close>: the encoding itself is not modelled. A response is its
  status, its text and its body decoded as a JSON object (\<open>None\<close>: \<^verbatim>\<open>response.json()\<close>
  raises); of the object only the members the code reads are kept. The identity
  provider is a function from requests to responses, and every call returns the list
  of exchanges it had with it.
\<close>

datatype auth = Basic string

record http_request =
  req_url :: string
  req_data :: "(string \<times> string) list"
  req_auth :: "auth option"

record token_json =
  access_token :: "string option"
  expires_in :: "real option"
  refresh_token :: "string option"
  error_code :: "string option"

record http_response =
  status_code :: nat
  text_of :: string
  json_of :: "token_json option"

type_synonym idp = "http_request \<Rightarrow> http_response"

type_synonym exchange_log = "(http_request \<times> http_response) list"

record cache_entry =
  entry_token :: string
  entry_expiry :: time

record token_exchanger =
  token_exchange_url :: string
  te_client_id :: string
  te_client_secret :: string
  te_api_resource_identifier :: "string option"
  token_cache :: "string \<rightharpoonup> cache_entry"

text \<open>\<^verbatim>\<open>TokenExchanger.__init__\<close>.\<close>

definition token_exchanger_init ::
  "string \<Rightarrow> string \<Rightarrow> string \<Rightarrow> string option \<Rightarrow> token_exchanger" where
  "token_exchanger_init xurl cid csecret ari =
     \<lparr> token_exchange_url = xurl, te_client_id = cid, te_client_secret = csecret,
       te_api_resource_identifier = ari, token_cache = Map.empty \<rparr>"

text \<open>\<^verbatim>\<open>_get_cached_token\<close>: the token if the entry has not reached its recorded expiry;
  an entry that has is deleted.\<close>

definition get_cached_token ::
  "token_exchanger \<Rightarrow> time \<Rightarrow> string \<Rightarrow> string option \<times> token_exchanger" where
  "get_cached_token te current_time agent_name =
     (case token_cache te agent_name of
        None \<Rightarrow> (None, te)
      | Some cache_entry \<Rightarrow>
          if current_time < entry_expiry cache_entry
          then (Some (entry_token cache_entry), te)
          else (None, te\<lparr>token_cache := (token_cache te)(agent_name := None)\<rparr>))"

text \<open>\<^verbatim>\<open>clear_cache\<close>.\<close>

definition clear_cache :: "token_exchanger \<Rightarrow> string option \<Rightarrow> token_exchanger" where
  "clear_cache te agent_name =
     (if \<not> falsy agent_name
      then te\<lparr>token_cache := (token_cache te)(the agent_name := None)\<rparr>
      else te\<lparr>token_cache := Map.empty\<rparr>)"

text \<open>\<^verbatim>\<open>_get_agent_secret\<close>.\<close>

definition get_agent_secret :: "env \<Rightarrow> string \<Rightarrow> string option" where
  "get_agent_secret ev agent_name =
     (let secret =
        (if sublist ''Vaccination'' agent_name
         then getenv_default ev ''VACCINATION_APP_SECRET'' []
         else if sublist ''Appointment'' agent_name \<or> sublist ''Scheduler'' agent_name
                 \<or> sublist ''Clinic'' agent_name
         then getenv_default ev ''APPOINTMENTS_APP_SECRET'' []
         else [])
      in if secret \<noteq> []
            \<and> secret \<notin> set [''<YOUR_VACCINATION_AGENT_SECRET>'',
                              ''<YOUR_APPOINTMENTS_AGENT_SECRET>'']
         then Some secret else None)"

text \<open>\<^verbatim>\<open>_get_actor_token\<close>: the client-credentials grant with the agent's own id and
  secret.\<close>

definition actor_token_request :: "token_exchanger \<Rightarrow> string \<Rightarrow> string \<Rightarrow> http_request" where
  "actor_token_request te agent_client_id agent_client_secret =
     \<lparr> req_url = token_exchange_url te,
       req_data = [(''grant_type'', ''client_credentials''), (''scope'', ''openid'')],
       req_auth = Some (Basic (agent_client_id @ '':'' @ agent_client_secret)) \<rparr>"

definition get_actor_token ::
  "token_exchanger \<Rightarrow> idp \<Rightarrow> string \<Rightarrow> string \<Rightarrow> (exn + string) \<times> exchange_log" where
  "get_actor_token te server agent_client_id agent_client_secret =
     (let rq = actor_token_request te agent_client_id agent_client_secret;
          response = server rq
      in if status_code response \<noteq> 200
         then (Inl (Exception (''Failed to get actor token: '' @ text_of response)),
               [(rq, response)])
         else
           (case json_of response of
              None \<Rightarrow> (Inl JSONDecodeError, [(rq, response)])
            | Some token_response \<Rightarrow>
                (case access_token token_response of
                   None \<Rightarrow> (Inl (KeyError ''access_token''), [(rq, response)])
                 | Some actor_token \<Rightarrow> (Inr actor_token, [(rq, response)]))))"

text \<open>
  The RFC 8693 request that \<^verbatim>\<open>exchange_token_for_agent\<close> builds (\<^verbatim>\<open>exchange_data\<close>
  and the headers of the POST). The actor token obtained just before is not among
  the values the source puts into it.
\<close>

definition exchange_request ::
  "token_exchanger \<Rightarrow> string \<Rightarrow> string \<Rightarrow> string \<Rightarrow> string \<Rightarrow> http_request" where
  "exchange_request te master_token agent_client_id agent_secret scope_wanted =
     (let with_resource = \<not> falsy (te_api_resource_identifier te);
          formatted_scope =
            (if with_resource
             then ''openid '' @ the (te_api_resource_identifier te) @ ''/'' @ scope_wanted
             else scope_wanted)
      in \<lparr> req_url = token_exchange_url te,
           req_data =
             [(''grant_type'', ''urn:ietf:params:oauth:grant-type:token-exchange''),
              (''subject_token'', master_token),
              (''subject_token_type'', ''urn:ietf:params:oauth:token-type:jwt''),
              (''requested_token_type'', ''urn:ietf:params:oauth:token-type:access_token''),
              (''scope'', formatted_scope)]
             @ (if with_resource
                then [(''audience'', the (te_api_resource_identifier te)),
                      (''resource'', the (te_api_resource_identifier te))]
                else []),
           req_auth = Some (Basic (agent_client_id @ '':'' @ agent_secret)) \<rparr>)"

text \<open>
  \<^verbatim>\<open>exchange_token_for_agent\<close> after the cache check: the actor token, the exchange
  request, the cache store. \<open>store_time\<close> is the clock reading when the entry is
  stored, after the two requests.
\<close>

definition exchange_uncached ::
  "token_exchanger \<Rightarrow> env \<Rightarrow> idp \<Rightarrow> time \<Rightarrow> string \<Rightarrow> string \<Rightarrow> string \<Rightarrow> string
     \<Rightarrow> (exn + string) \<times> token_exchanger \<times> exchange_log" where
  "exchange_uncached te ev server store_time master_token agent_name agent_client_id scope_wanted =
     (case get_agent_secret ev agent_name of
        None \<Rightarrow>
          (Inl (Exception (''No client secret configured for '' @ agent_name)), te, [])
      | Some agent_secret \<Rightarrow>
          (case get_actor_token te server agent_client_id agent_secret of
             (Inl x, trace1) \<Rightarrow> (Inl x, te, trace1)
           | (Inr actor_token, trace1) \<Rightarrow>
               (let rq = exchange_request te master_token agent_client_id agent_secret
                           scope_wanted;
                    response = server rq;
                    trace2 = trace1 @ [(rq, response)]
                in if status_code response \<noteq> 200
                   then (Inl (Exception (''Token exchange failed for '' @ agent_name @ '': ''
                                @ text_of response)), te, trace2)
                   else
                     (case json_of response of
                        None \<Rightarrow> (Inl JSONDecodeError, te, trace2)
                      | Some token_response \<Rightarrow>
                          (case access_token token_response of
                             None \<Rightarrow> (Inl (KeyError ''access_token''), te, trace2)
                           | Some delegated_token \<Rightarrow>
                               (Inr delegated_token,
                                te\<lparr>token_cache := (token_cache te)(agent_name \<mapsto>
                                     \<lparr> entry_token = delegated_token,
                                       entry_expiry =
                                         store_time
                                         + (case expires_in token_response of
                                              None \<Rightarrow> 3600 | Some d \<Rightarrow> d)
                                         - 60 \<rparr>)\<rparr>,
                                trace2))))))"

text \<open>\<^verbatim>\<open>exchange_token_for_agent\<close>. \<open>current_time\<close> is the clock reading of the cache
  check. A cached token is used only when it is truthy (\<^verbatim>\<open>if cached:\<close>).\<close>

definition exchange_token_for_agent ::
  "token_exchanger \<Rightarrow> env \<Rightarrow> idp \<Rightarrow> time \<Rightarrow> time \<Rightarrow> string \<Rightarrow> string \<Rightarrow> string \<Rightarrow> string
     \<Rightarrow> (exn + string) \<times> token_exchanger \<times> exchange_log" where
  "exchange_token_for_agent te ev server current_time store_time master_token agent_name
       agent_client_id scope_wanted =
     (case get_cached_token te current_time agent_name of
        (cached, te') \<Rightarrow>
          if \<not> falsy cached then (Inr (the cached), te', [])
          else exchange_uncached te' ev server store_time master_token agent_name
                 agent_client_id scope_wanted)"

section \<open>Orchestrator tool (orchestrator/agent.py, agents/orchestrator_agent/agent.py)\<close>

text \<open>
  The module globals that \<^verbatim>\<open>talk_to_agent\<close> reads and writes. Of \<^verbatim>\<open>KNOWN_AGENTS\<close> only
  the key set matters here.
\<close>

record agent_config =
  cfg_name :: string
  app_id :: string
  app_secret :: string
  cfg_required_scope :: string

record globals =
  KNOWN_AGENTS :: "string set"
  TOKEN_EXCHANGER :: "token_exchanger option"
  MASTER_TOKEN :: "string option"
  AGENT_CONFIGS :: "string \<rightharpoonup> agent_config"
  DELEGATED_TOKENS :: "string \<rightharpoonup> string"

text \<open>
  What the tool does towards the downstream agent: it returns an error string
  without sending, or it sends the message with the \<^verbatim>\<open>Authorization\<close> header given
  (\<open>None\<close>: the default client, which carries no such header).
\<close>

datatype tool_result = ToolError string | Sent "string option"

text \<open>Step 4 of \<^verbatim>\<open>talk_to_agent\<close>: \<^verbatim>\<open>if agent_token:\<close> chooses the client.\<close>

definition send_message :: "string \<Rightarrow> tool_result" where
  "send_message agent_token =
     Sent (if agent_token \<noteq> [] then Some (''Bearer '' @ agent_token) else None)"

text \<open>\<^verbatim>\<open>talk_to_agent\<close>, steps 1, 2 and 4; the same in both orchestrators.\<close>

definition talk_to_agent ::
  "globals \<Rightarrow> env \<Rightarrow> idp \<Rightarrow> time \<Rightarrow> time \<Rightarrow> string \<Rightarrow> string
     \<Rightarrow> tool_result \<times> globals \<times> exchange_log" where
  "talk_to_agent g ev server current_time store_time agent_name content =
     (if agent_name \<notin> KNOWN_AGENTS g
      then (ToolError (''Error: Agent '' @ agent_name @ '' is not available''), g, [])
      else
        (case DELEGATED_TOKENS g agent_name of
           Some agent_token \<Rightarrow> (send_message agent_token, g, [])
         | None \<Rightarrow>
             (case (TOKEN_EXCHANGER g, AGENT_CONFIGS g agent_name) of
                (Some te, Some agent_config) \<Rightarrow>
                  if falsy (MASTER_TOKEN g)
                  then (ToolError (''Error: Cannot get token for '' @ agent_name), g, [])
                  else
                    (case exchange_token_for_agent te ev server current_time store_time
                            (the (MASTER_TOKEN g)) agent_name (app_id agent_config)
                            (cfg_required_scope agent_config) of
                       (Inl x, te', trace) \<Rightarrow>
                         (ToolError (''Error: Token exchange failed for '' @ agent_name),
                          g\<lparr>TOKEN_EXCHANGER := Some te'\<rparr>, trace)
                     | (Inr agent_token, te', trace) \<Rightarrow>
                         (send_message agent_token,
                          g\<lparr>TOKEN_EXCHANGER := Some te',
                            DELEGATED_TOKENS := (DELEGATED_TOKENS g)(agent_name \<mapsto> agent_token)\<rparr>,
                          trace))
              | _ \<Rightarrow> (ToolError (''Error: Cannot get token for '' @ agent_name), g, []))))"

text \<open>
  A session of the orchestrator: the tool called again and again, each call with its
  own environment, identity-provider behaviour, clock readings and arguments. The
  result lists what each call did, and all exchanges with the identity provider.
\<close>

record tool_call =
  call_env :: env
  call_idp :: idp
  call_time :: time
  call_store_time :: time
  call_agent :: string
  call_content :: string

fun session :: "globals \<Rightarrow> tool_call list \<Rightarrow> tool_result list \<times> globals \<times> exchange_log" where
  "session g [] = ([], g, [])"
| "session g (c # cs) =
     (case talk_to_agent g (call_env c) (call_idp c) (call_time c) (call_store_time c)
             (call_agent c) (call_content c) of
        (r, g', trace) \<Rightarrow>
          (case session g' cs of (rs, g'', trace') \<Rightarrow> (r # rs, g'', trace @ trace')))"

text \<open>
  The tokens a log shows as issued by token exchange: the access tokens of the
  200 responses to requests of the token-exchange grant for the given subject token.
\<close>

definition issued_by_exchange :: "string \<Rightarrow> exchange_log \<Rightarrow> string set" where
  "issued_by_exchange master trace =
     {t. \<exists>(rq, rs) \<in> set trace.
           map_of (req_data rq) ''grant_type''
             = Some ''urn:ietf:params:oauth:grant-type:token-exchange''
           \<and> map_of (req_data rq) ''subject_token'' = Some master
           \<and> status_code rs = 200
           \<and> (\<exists>j. json_of rs = Some j \<and> access_token j = Some t)}"

text \<open>
  A sample identity provider: it answers the client-credentials grant with an actor
  token, the token-exchange grant with a delegated token valid for an hour, and the
  authorization-code grant with a master token valid for an hour.
\<close>

definition sample_idp :: idp where
  "sample_idp rq =
     (if map_of (req_data rq) ''grant_type'' = Some ''client_credentials''
      then \<lparr> status_code = 200, text_of = ''ok'',
             json_of = Some \<lparr> access_token = Some ''ACTOR'', expires_in = Some 3600,
                              refresh_token = None, error_code = None \<rparr> \<rparr>
      else if map_of (req_data rq) ''grant_type''
                = Some ''urn:ietf:params:oauth:grant-type:token-exchange''
      then \<lparr> status_code = 200, text_of = ''ok'',
             json_of = Some \<lparr> access_token = Some ''DELEGATED'', expires_in = Some 3600,
                              refresh_token = None, error_code = None \<rparr> \<rparr>
      else if map_of (req_data rq) ''grant_type'' = Some ''authorization_code''
      then \<lparr> status_code = 200, text_of = ''ok'',
             json_of = Some \<lparr> access_token = Some ''MASTER'', expires_in = Some 3600,
                              refresh_token = None, error_code = None \<rparr> \<rparr>
      else \<lparr> status_code = 400, text_of = ''unsupported_grant_type'',
             json_of = Some \<lparr> access_token = None, expires_in = None, refresh_token = None,
                              error_code = Some ''unsupported_grant_type'' \<rparr> \<rparr>)"

text \<open>
  An identity provider that answers the token-exchange grant with status 200 and an
  empty access token, and every other request as the sample provider does.
\<close>

definition empty_token_idp :: idp where
  "empty_token_idp rq =
     (if map_of (req_data rq) ''grant_type''
           = Some ''urn:ietf:params:oauth:grant-type:token-exchange''
      then \<lparr> status_code = 200, text_of = ''ok'',
             json_of = Some \<lparr> access_token = Some [], expires_in = Some 3600,
                              refresh_token = None, error_code = None \<rparr> \<rparr>
      else sample_idp rq)"

definition sample_env :: env where
  "sample_env = [''VACCINATION_APP_SECRET'' \<mapsto> ''s3cret'']"

definition sample_exchanger :: token_exchanger where
  "sample_exchanger = token_exchanger_init ''https://idp/token'' ''ORCH'' ''orch-secret'' None"

definition sample_globals :: globals where
  "sample_globals =
     \<lparr> KNOWN_AGENTS = {''Pet Vaccination Assistant''},
       TOKEN_EXCHANGER = Some sample_exchanger,
       MASTER_TOKEN = Some ''MASTER'',
       AGENT_CONFIGS =
         [''Pet Vaccination Assistant'' \<mapsto>
            \<lparr> cfg_name = ''Pet Vaccination Assistant'', app_id = ''VAX1'',
              app_secret = ''s3cret'', cfg_required_scope = ''vaccination:read'' \<rparr>],
       DELEGATED_TOKENS = Map.empty \<rparr>"

definition sample_call :: "time \<Rightarrow> tool_call" where
  "sample_call t0 =
     \<lparr> call_env = sample_env, call_idp = sample_idp, call_time = t0,
       call_store_time = t0 + 1, call_agent = ''Pet Vaccination Assistant'',
       call_content = ''What vaccines do dogs need?'' \<rparr>"

definition empty_token_call :: "time \<Rightarrow> tool_call" where
  "empty_token_call t0 = (sample_call t0)\<lparr>call_idp := empty_token_idp\<rparr>"
text \<open>The sample exchanger and globals after one exchange stored at time 1.\<close>

definition sample_cached :: token_exchanger where
  "sample_cached =
     sample_exchanger\<lparr>token_cache := (token_cache sample_exchanger)(''Pet Vaccination Assistant'' \<mapsto>
        \<lparr> entry_token = ''DELEGATED'', entry_expiry = 1 + 3600 - 60 \<rparr>)\<rparr>"

definition sample_after :: globals where
  "sample_after =
     sample_globals\<lparr>TOKEN_EXCHANGER := Some sample_cached,
       DELEGATED_TOKENS := [''Pet Vaccination Assistant'' \<mapsto> ''DELEGATED'']\<rparr>"

text \<open>
  The invariant of a session: every token in \<^verbatim>\<open>DELEGATED_TOKENS\<close> was issued by a
  token exchange for the master token, and so was every token in the exchanger's
  cache.
\<close>

definition tokens_from_exchange :: "string \<Rightarrow> exchange_log \<Rightarrow> globals \<Rightarrow> bool" where
  "tokens_from_exchange master tr g =
     (MASTER_TOKEN g = Some master
      \<and> (\<forall>name t. DELEGATED_TOKENS g name = Some t \<longrightarrow>
             t \<in> issued_by_exchange master tr)
      \<and> (\<forall>te name en. TOKEN_EXCHANGER g = Some te \<and> token_cache te name = Some en \<longrightarrow>
             entry_token en \<in> issued_by_exchange master tr))"


text \<open>The globals after one exchange, stored at time 1, that returned the empty token.\<close>

definition empty_token_after :: globals where
  "empty_token_after =
     sample_globals\<lparr>TOKEN_EXCHANGER := Some
         (sample_exchanger\<lparr>token_cache :=
            (token_cache sample_exchanger)(''Pet Vaccination Assistant'' \<mapsto>
               \<lparr> entry_token = [], entry_expiry = 1 + 3600 - 60 \<rparr>)\<rparr>),
       DELEGATED_TOKENS := [''Pet Vaccination Assistant'' \<mapsto> []]\<rparr>"

section \<open>Device-flow authenticator (orchestrator/user_auth.py)\<close>

record user_authenticator =
  device_authorize_url :: string
  token_url :: string
  ua_client_id :: string
  ua_client_secret :: string
  ua_scope :: string
  master_token :: "string option"
  ua_refresh_token :: "string option"
  token_expiry :: "time option"

text \<open>\<^verbatim>\<open>UserAuthenticator.__init__\<close>.\<close>

definition user_authenticator_init ::
  "string \<Rightarrow> string \<Rightarrow> string \<Rightarrow> string \<Rightarrow> string \<Rightarrow> user_authenticator" where
  "user_authenticator_init durl turl cid csecret sc =
     \<lparr> device_authorize_url = durl, token_url = turl, ua_client_id = cid,
       ua_client_secret = csecret, ua_scope = sc, master_token = None,
       ua_refresh_token = None, token_expiry = None \<rparr>"

text \<open>
  The device-authorization endpoint's answer: status and decoded body, of which
  \<^verbatim>\<open>device_code\<close> and \<^verbatim>\<open>interval\<close> are read.
\<close>

record device_json =
  device_code :: "string option"
  poll_interval :: "real option"

record device_response =
  dev_status :: nat
  dev_json :: "device_json option"

text \<open>
  \<^verbatim>\<open>initiate_device_flow\<close>. \<open>endpoint\<close> answers the first POST, which carries no
  \<^verbatim>\<open>Authorization\<close> header. On 400 or 401 the source builds Basic credentials with
  \<^verbatim>\<open>base64\<close>, a module \<^verbatim>\<open>user_auth.py\<close> never imports: the retry raises \<^verbatim>\<open>NameError\<close>
  before any second request. \<^verbatim>\<open>raise_for_status\<close> (httpx) raises unless the status is
  2xx. The result carries the number of requests sent.
\<close>

definition initiate_device_flow ::
  "user_authenticator \<Rightarrow> device_response \<Rightarrow> (exn + device_json) \<times> nat" where
  "initiate_device_flow ua endpoint =
     (if dev_status endpoint = 401 \<or> dev_status endpoint = 400
      then (Inl (NameError ''base64''), 1)
      else if \<not> (200 \<le> dev_status endpoint \<and> dev_status endpoint \<le> 299)
      then (Inl (HTTPStatusError (dev_status endpoint)), 1)
      else (case dev_json endpoint of
              None \<Rightarrow> (Inl JSONDecodeError, 1)
            | Some device_data \<Rightarrow> (Inr device_data, 1)))"

text \<open>The request of one poll.\<close>

definition poll_request :: "user_authenticator \<Rightarrow> string \<Rightarrow> http_request" where
  "poll_request ua dcode =
     \<lparr> req_url = token_url ua,
       req_data = [(''grant_type'', ''urn:ietf:params:oauth:grant-type:device_code''),
                   (''device_code'', dcode),
                   (''client_id'', ua_client_id ua),
                   (''client_secret'', ua_client_secret ua)],
       req_auth = None \<rparr>"

text \<open>
  The loop of \<^verbatim>\<open>poll_for_token\<close>. \<open>server i\<close> is the token endpoint's behaviour at
  poll number \<open>i\<close> (from 0); \<open>clock i\<close> is the \<open>i\<close>-th reading of \<^verbatim>\<open>time.time()\<close> in the
  call, reading 0 being \<^verbatim>\<open>start_time\<close>. The loop may run forever (a server that keeps
  answering \<^verbatim>\<open>authorization_pending\<close> while the clock stands still), so it takes
  fuel: \<open>None\<close> is the loop still running when the fuel is spent. A result carries the
  number of polls sent and the durations slept, in order. The \<^verbatim>\<open>except
  httpx.HTTPStatusError\<close> clause is dead: nothing in the \<^verbatim>\<open>try\<close> block raises that
  class.
\<close>

fun poll_loop ::
  "nat \<Rightarrow> user_authenticator \<Rightarrow> (nat \<Rightarrow> idp) \<Rightarrow> (nat \<Rightarrow> time) \<Rightarrow> string \<Rightarrow> time \<Rightarrow> real
     \<Rightarrow> nat \<Rightarrow> real list \<Rightarrow> ((exn + token_json) \<times> nat \<times> real list) option" where
  "poll_loop 0 ua server clock dcode timeout interval i slept = None"
| "poll_loop (Suc fuel) ua server clock dcode timeout interval i slept =
     (if clock (Suc i) - clock 0 > timeout then Some (Inl TimeoutError, i, slept)
      else
        (let response = server i (poll_request ua dcode) in
         if status_code response = 200
         then (case json_of response of
                 None \<Rightarrow> Some (Inl JSONDecodeError, Suc i, slept)
               | Some token_data \<Rightarrow> Some (Inr token_data, Suc i, slept))
         else
           (case json_of response of
              None \<Rightarrow> Some (Inl JSONDecodeError, Suc i, slept)
            | Some error_data \<Rightarrow>
                if error_code error_data = Some ''authorization_pending''
                then poll_loop fuel ua server clock dcode timeout interval (Suc i)
                       (slept @ [interval])
                else if error_code error_data = Some ''slow_down''
                then poll_loop fuel ua server clock dcode timeout (interval + 5) (Suc i)
                       (slept @ [interval + 5])
                else if error_code error_data = Some ''expired_token''
                        \<or> error_code error_data = Some ''access_denied''
                then Some (Inl (Exception (''Authentication failed: ''
                                   @ the (error_code error_data))), Suc i, slept)
                else Some (Inl (Exception ''Token polling error''), Suc i, slept))))"

text \<open>\<^verbatim>\<open>poll_for_token\<close>; the defaults of the source are \<open>interval = 5\<close> and
  \<open>timeout = 300\<close>.\<close>

definition poll_for_token ::
  "nat \<Rightarrow> user_authenticator \<Rightarrow> (nat \<Rightarrow> idp) \<Rightarrow> (nat \<Rightarrow> time) \<Rightarrow> string \<Rightarrow> real \<Rightarrow> time
     \<Rightarrow> ((exn + token_json) \<times> nat \<times> real list) option" where
  "poll_for_token fuel ua server clock dcode interval timeout =
     poll_loop fuel ua server clock dcode timeout interval 0 []"

text \<open>
  \<^verbatim>\<open>authenticate_user\<close> of the device flow. \<open>current_time\<close> is the clock reading of
  the cache check, \<open>store_time\<close> the reading when the new token is stored. A result
  carries the new state, the number of requests to the device-authorization endpoint
  and the number of requests to the token endpoint.
\<close>

definition authenticate_user ::
  "nat \<Rightarrow> user_authenticator \<Rightarrow> device_response \<Rightarrow> (nat \<Rightarrow> idp) \<Rightarrow> (nat \<Rightarrow> time) \<Rightarrow> time \<Rightarrow> time
     \<Rightarrow> ((exn + string) \<times> user_authenticator \<times> nat \<times> nat) option" where
  "authenticate_user fuel ua endpoint server clock current_time store_time =
     (if \<not> falsy (master_token ua) \<and> token_expiry ua \<noteq> None \<and> token_expiry ua \<noteq> Some 0
         \<and> current_time < the (token_expiry ua) - 300
      then Some (Inr (the (master_token ua)), ua, 0, 0)
      else
        (case initiate_device_flow ua endpoint of
           (Inl x, d) \<Rightarrow> Some (Inl x, ua, d, 0)
         | (Inr device_data, d) \<Rightarrow>
             (case device_code device_data of
                None \<Rightarrow> Some (Inl (KeyError ''device_code''), ua, d, 0)
              | Some dcode \<Rightarrow>
                  (case poll_for_token fuel ua server clock dcode
                          (case poll_interval device_data of None \<Rightarrow> 5 | Some v \<Rightarrow> v) 300 of
                     None \<Rightarrow> None
                   | Some (Inl x, polls, slept) \<Rightarrow> Some (Inl x, ua, d, polls)
                   | Some (Inr token_data, polls, slept) \<Rightarrow>
                       (case access_token token_data of
                          None \<Rightarrow> Some (Inl (KeyError ''access_token''), ua, d, polls)
                        | Some tok \<Rightarrow>
                            Some (Inr tok,
                                  ua\<lparr>master_token := Some tok,
                                     ua_refresh_token := refresh_token token_data,
                                     token_expiry :=
                                       Some (store_time
                                             + (case expires_in token_data of
                                                  None \<Rightarrow> 3600 | Some v \<Rightarrow> v))\<rparr>,
                                  d, polls))))))"

section \<open>Browser authenticator (agents/orchestrator_agent/browser_auth.py)\<close>

record browser_authenticator =
  authorize_url :: string
  ba_token_url :: string
  ba_client_id :: string
  ba_client_secret :: string
  redirect_uri :: string
  ba_scope :: string
  ba_api_resource_identifier :: "string option"
  ba_access_token :: "string option"
  ba_refresh_token :: "string option"

text \<open>\<^verbatim>\<open>BrowserAuthenticator.__init__\<close>. The class keeps no expiry of the token it
  stores.\<close>

definition browser_authenticator_init ::
  "string \<Rightarrow> string \<Rightarrow> string \<Rightarrow> string \<Rightarrow> string \<Rightarrow> string \<Rightarrow> string option
     \<Rightarrow> browser_authenticator" where
  "browser_authenticator_init aurl turl cid csecret ruri sc ari =
     \<lparr> authorize_url = aurl, ba_token_url = turl, ba_client_id = cid,
       ba_client_secret = csecret, redirect_uri = ruri,
       ba_scope = (if sc = [] then ''openid profile vaccination:read appointments:read'' else sc),
       ba_api_resource_identifier = ari, ba_access_token = None, ba_refresh_token = None \<rparr>"

text \<open>
  What the one request served by the local callback listener left in
  \<^verbatim>\<open>CallbackHandler\<close>: an error with its description, an authorization code, or neither
  (no request within the listener's timeout, or a request with neither parameter).
\<close>

datatype callback = CallbackError string string | CallbackCode string | NoCallback

text \<open>The code-for-token request of \<^verbatim>\<open>authenticate_user\<close>; an absent API-resource
  identifier goes out as an empty \<^verbatim>\<open>resource\<close> field.\<close>

definition code_exchange_request ::
  "browser_authenticator \<Rightarrow> string \<Rightarrow> string \<Rightarrow> http_request" where
  "code_exchange_request ba code code_verifier =
     \<lparr> req_url = ba_token_url ba,
       req_data = [(''grant_type'', ''authorization_code''),
                   (''code'', code),
                   (''redirect_uri'', redirect_uri ba),
                   (''code_verifier'', code_verifier)]
                  @ [(''resource'', str_or (ba_api_resource_identifier ba) [])],
       req_auth = Some (Basic (ba_client_id ba @ '':'' @ ba_client_secret ba)) \<rparr>"

text \<open>
  \<^verbatim>\<open>BrowserAuthenticator.authenticate_user\<close>. \<open>code_verifier\<close> is the PKCE verifier
  drawn for this attempt and \<open>cb\<close> what the browser round trip left behind; building
  the authorization URL and binding the listener are not modelled. There is no look at
  a token obtained before: every call runs the flow.
\<close>

definition browser_authenticate_user ::
  "browser_authenticator \<Rightarrow> idp \<Rightarrow> callback \<Rightarrow> string
     \<Rightarrow> (exn + string) \<times> browser_authenticator \<times> exchange_log" where
  "browser_authenticate_user ba server cb code_verifier =
     (case cb of
        CallbackError err descr \<Rightarrow>
          if err = []
          then (Inl (Exception ''Failed to receive authorization code''), ba, [])
          else (Inl (Exception (''Asgardeo error: '' @ err @ '' - '' @ descr)), ba, [])
      | NoCallback \<Rightarrow> (Inl (Exception ''Failed to receive authorization code''), ba, [])
      | CallbackCode code \<Rightarrow>
          if code = []
          then (Inl (Exception ''Failed to receive authorization code''), ba, [])
          else
            (let rq = code_exchange_request ba code code_verifier;
                 response = server rq
             in if status_code response \<noteq> 200
                then (Inl (Exception (''Failed to exchange code for token: ''
                             @ text_of response)), ba, [(rq, response)])
                else
                  (case json_of response of
                     None \<Rightarrow> (Inl JSONDecodeError, ba, [(rq, response)])
                   | Some token_response \<Rightarrow>
                       (case access_token token_response of
                          None \<Rightarrow> (Inl (KeyError ''access_token''), ba, [(rq, response)])
                        | Some tok \<Rightarrow>
                            (Inr tok,
                             ba\<lparr>ba_access_token := Some tok,
                                ba_refresh_token := refresh_token token_response\<rparr>,
                             [(rq, response)])))))"

text \<open>
  Samples: a token endpoint that answers \<^verbatim>\<open>authorization_pending\<close> three times and
  then issues a master token; a clock that advances five seconds per reading; a
  device-authorization answer; and the two authenticators.
\<close>

definition pending_response :: http_response where
  "pending_response =
     \<lparr> status_code = 400, text_of = ''authorization_pending'',
       json_of = Some \<lparr> access_token = None, expires_in = None, refresh_token = None,
                        error_code = Some ''authorization_pending'' \<rparr> \<rparr>"

definition master_json :: token_json where
  "master_json =
     \<lparr> access_token = Some ''MASTER'', expires_in = Some 3600, refresh_token = Some ''REFRESH'',
       error_code = None \<rparr>"

definition sample_poll_server :: "nat \<Rightarrow> idp" where
  "sample_poll_server i rq =
     (if i < 3 then pending_response
      else \<lparr> status_code = 200, text_of = ''ok'', json_of = Some master_json \<rparr>)"

definition sample_clock :: "nat \<Rightarrow> time" where
  "sample_clock i = 1000 + 5 * real i"

text \<open>A clock that moves only while the loop sleeps, with a polling interval of 120
  seconds: reading 0 is \<^verbatim>\<open>start_time\<close>, reading 1 is taken at once, and every later
  reading is 120 seconds after the one before.\<close>

definition slow_clock :: "nat \<Rightarrow> time" where
  "slow_clock i = 1000 + 120 * real (i - 1)"

definition sample_device_response :: device_response where
  "sample_device_response =
     \<lparr> dev_status = 200,
       dev_json = Some \<lparr> device_code = Some ''DEV'', poll_interval = Some 5 \<rparr> \<rparr>"

definition sample_user_authenticator :: user_authenticator where
  "sample_user_authenticator =
     user_authenticator_init ''https://idp/device_authorize'' ''https://idp/token'' ''ORCH''
       ''orch-secret'' ''vaccination:read appointments:read openid profile''"

definition sample_user_authenticated :: user_authenticator where
  "sample_user_authenticated =
     sample_user_authenticator\<lparr>master_token := Some ''MASTER'',
       ua_refresh_token := Some ''REFRESH'', token_expiry := Some (1020 + 3600)\<rparr>"

definition sample_browser_authenticator :: browser_authenticator where
  "sample_browser_authenticator =
     browser_authenticator_init ''https://idp/authorize'' ''https://idp/token'' ''ORCH''
       ''orch-secret'' ''http://localhost:8080/callback''
       ''openid profile vaccination:read appointments:read'' None"

definition sample_browser_authenticated :: browser_authenticator where
  "sample_browser_authenticated =
     sample_browser_authenticator\<lparr>ba_access_token := Some ''MASTER'', ba_refresh_token := None\<rparr>"

section \<open>Properties of the verifier\<close>

lemma get_jwks_keeps:
  "get_jwks m now fetch = (r, m', k) \<Longrightarrow>
     issuer m' = issuer m \<and> valid_audiences m' = valid_audiences m \<and> enabled m' = enabled m
     \<and> public_paths m' = public_paths m \<and> k \<le> 1"
  by (auto simp: get_jwks_def split: if_splits option.splits)

lemma make_rsa_key_complete:
  "jwk_complete key \<Longrightarrow> \<exists>r. make_rsa_key key = Inr r"
  by (auto simp: jwk_complete_def make_rsa_key_def subscript_def)

lemma find_key_complete:
  "list_all jwk_complete keys \<Longrightarrow> \<exists>r. find_key keys key_id = Inr r"
proof (induction keys)
  case Nil
  then show ?case by simp
next
  case (Cons key keys)
  then obtain r where "make_rsa_key key = Inr r" using make_rsa_key_complete by auto
  moreover from Cons have "jwk_kid key \<noteq> None" by (simp add: jwk_complete_def)
  ultimately show ?case using Cons by (auto simp: subscript_def)
qed

lemma find_key_absent:
  "\<forall>key \<in> set keys. \<exists>s. jwk_kid key = Some s \<and> Some (JStr s) \<noteq> key_id \<Longrightarrow>
     find_key keys key_id = Inr None"
  by (induction keys) (auto simp: subscript_def)

lemma is_jwt_error_Inl: "is_jwt_error (Inl x) \<Longrightarrow> \<exists>r. x = JWTError r"
  by (cases x) (auto simp: is_jwt_error_def)

lemma aud_in_matches:
  assumes "\<not> (\<exists>l. aud = Some (JStrs l) \<and> list_ex (\<lambda>a. a \<in> set auds) l)"
  shows "aud_in aud auds = aud_matches aud auds"
proof (cases aud)
  case None
  then show ?thesis by (simp add: aud_in_def aud_matches_def)
next
  case (Some v)
  with assms show ?thesis by (cases v) (simp_all add: aud_in_def aud_matches_def)
qed

lemma validate_token_result:
  assumes jw: "get_jwks m now fetch = (Inr (Some keys), m', k)"
    and wf: "list_all jwk_complete keys"
    and lib: "fails_as_jwt lib m now keys token"
    and arr: "\<not> array_aud_hit lib m now keys token"
  shows "(\<exists>payload. validate_token lib m now fetch token = (Inr payload, m', k)
            \<and> token_accepted lib m now keys token payload)
       \<or> (\<exists>r. validate_token lib m now fetch token = (Inl (JWTError r), m', k)
            \<and> (\<forall>payload. \<not> token_accepted lib m now keys token payload))"
proof -
  from jw have keep: "issuer m' = issuer m" "valid_audiences m' = valid_audiences m"
    using get_jwks_keeps by blast+
  from lib have h: "is_jwt_error (get_unverified_header lib token)"
    and c: "is_jwt_error (get_unverified_claims lib token)"
    and d: "\<And>hdr rsa. get_unverified_header lib token = Inr hdr \<Longrightarrow>
              find_key keys (map_of hdr ''kid'') = Inr (Some rsa) \<Longrightarrow>
              is_jwt_error (decode lib token rsa (issuer m) now)"
    by (auto simp: fails_as_jwt_def)
  show ?thesis
  proof (cases "get_unverified_header lib token")
    case (Inl x)
    with h obtain r where "x = JWTError r" using is_jwt_error_Inl by metis
    with Inl jw show ?thesis by (simp add: validate_token_def token_accepted_def)
  next
    case hdr: (Inr hdr)
    from wf obtain fk where fk: "find_key keys (map_of hdr ''kid'') = Inr fk"
      using find_key_complete by blast
    show ?thesis
    proof (cases fk)
      case None
      with hdr fk jw show ?thesis by (simp add: validate_token_def token_accepted_def)
    next
      case (Some rsa)
      show ?thesis
      proof (cases "get_unverified_claims lib token")
        case (Inl x)
        with c obtain r where "x = JWTError r" using is_jwt_error_Inl by metis
        with Inl hdr fk Some jw show ?thesis
          by (simp add: validate_token_def token_accepted_def)
      next
        case up: (Inr up)
        show ?thesis
        proof (cases "decode lib token rsa (issuer m) now")
          case (Inl x)
          from d[OF hdr fk[unfolded Some]] Inl obtain r where "x = JWTError r"
            using is_jwt_error_Inl by metis
          with Inl hdr fk Some up jw keep show ?thesis
            by (simp add: validate_token_def token_accepted_def)
        next
          case (Inr payload)
          have "\<not> (\<exists>l. map_of payload ''aud'' = Some (JStrs l)
                      \<and> list_ex (\<lambda>a. a \<in> set (valid_audiences m)) l)"
            using arr hdr fk Some Inr unfolding array_aud_hit_def by blast
          then have a: "aud_in (map_of payload ''aud'') (valid_audiences m)
                          = aud_matches (map_of payload ''aud'') (valid_audiences m)"
            by (rule aud_in_matches)
          with Inr hdr fk Some up jw keep show ?thesis
            by (simp add: validate_token_def token_accepted_def)
        qed
      qed
    qed
  qed
qed

lemma dispatch_bearer:
  assumes "enabled m" "\<not> is_public_path m (path req)" "bearer_token req = Some token"
  shows "dispatch lib m now fetch req =
     (case validate_token lib m now fetch token of
        (Inr payload, m', k) \<Rightarrow> (CallNext (Some payload), m', k)
      | (Inl (JWTError r), m', k) \<Rightarrow> (JSONResponse 401 ''invalid_token'', m', k)
      | (Inl x, m', k) \<Rightarrow> (JSONResponse 500 ''server_error'', m', k))"
proof -
  from assms(3) obtain h scheme where h: "authorization req = Some h"
    "py_split h = [scheme, token]" "lower scheme = ''bearer''"
    by (auto simp: bearer_token_def split: option.splits list.splits if_splits)
  have "h \<noteq> []" using h(2) by (auto simp: py_split_def)
  with assms(1,2) h show ?thesis by (simp add: dispatch_def)
qed

lemma dispatch_no_bearer:
  assumes "enabled m" "\<not> is_public_path m (path req)" "bearer_token req = None"
  shows "\<exists>err. dispatch lib m now fetch req = (JSONResponse 401 err, m, 0)"
proof (cases "authorization req")
  case None
  with assms show ?thesis by (simp add: dispatch_def)
next
  case (Some h)
  show ?thesis
  proof (cases "h = []")
    case True
    with Some assms show ?thesis by (simp add: dispatch_def)
  next
    case False
    show ?thesis
    proof (cases "\<exists>scheme token. py_split h = [scheme, token]")
      case True
      then obtain scheme token where p: "py_split h = [scheme, token]" by blast
      with assms(3) Some have "lower scheme \<noteq> ''bearer''"
        by (auto simp: bearer_token_def)
      with p Some False assms(1,2) show ?thesis by (simp add: dispatch_def)
    next
      case no: False
      then have "(case py_split h of [scheme, token] \<Rightarrow> f scheme token | _ \<Rightarrow> g) = g" for f and g :: "outcome \<times> middleware \<times> nat"
        by (cases "py_split h" rule: list.exhaust; simp split: list.splits)
      with Some False assms(1,2) show ?thesis by (simp add: dispatch_def)
    qed
  qed
qed

lemma lower_Bearer: "lower ''Bearer'' = ''bearer''"
  by code_simp

lemma sample_bearer: "bearer_token (sample_request ''tok'') = Some ''tok''"
  by (simp add: bearer_token_def sample_request_def py_split_def is_space_def lower_Bearer)

lemma sample_bearer_old: "bearer_token (sample_request ''old'') = Some ''old''"
  by (simp add: bearer_token_def sample_request_def py_split_def is_space_def lower_Bearer)

lemma sample_middleware_fields:
  "issuer (sample_middleware aid) = ''idp''"
  "valid_audiences (sample_middleware None) = []"
  "valid_audiences (sample_middleware (Some ''other'')) = [''other'']"
  "valid_audiences (sample_middleware (Some ''appointments-app'')) = [''appointments-app'']"
  "issuer (sample_warm aid) = ''idp''"
  "valid_audiences (sample_warm aid) = valid_audiences (sample_middleware aid)"
  by (simp_all add: sample_middleware_def sample_warm_def middleware_init_def str_or_def
      getenv_default_def Let_def)

lemma sample_enabled: "enabled (sample_middleware aid)"
  by (simp add: sample_middleware_def middleware_init_def Let_def)

lemma sample_not_public: "\<not> is_public_path (sample_middleware aid) (path (sample_request t))"
  by (simp add: sample_middleware_def middleware_init_def Let_def is_public_path_def
      sample_request_def)

lemma sample_get_jwks:
  "get_jwks (sample_middleware aid) 10 (Some (Some sample_keys))
     = (Inr (Some sample_keys), sample_warm aid, 1)"
  by (simp add: get_jwks_def cache_fresh_def sample_middleware_def sample_warm_def
      middleware_init_def Let_def)

lemma sample_keys_complete: "list_all jwk_complete sample_keys"
  by (simp add: sample_keys_def jwk_complete_def)

lemma sample_find_key:
  "find_key sample_keys (Some (JStr ''k1''))
     = Inr (Some \<lparr> rsa_kty = ''RSA'', rsa_kid = ''k1'', rsa_use = ''sig'', rsa_n = ''N1'',
                   rsa_e = ''AQAB'' \<rparr>)"
  by (simp add: sample_keys_def subscript_def make_rsa_key_def)

lemma sample_fails_as_jwt: "fails_as_jwt sample_jose m now keys token"
  by (simp add: fails_as_jwt_def sample_jose_def is_jwt_error_def)

lemma sample_no_array_aud: "\<not> array_aud_hit sample_jose m now keys token"
  by (auto simp: array_aud_hit_def sample_jose_def sample_payload_def split: if_splits)

lemma sample_bearer_multi: "bearer_token (sample_request ''multi'') = Some ''multi''"
  by (simp add: bearer_token_def sample_request_def py_split_def is_space_def lower_Bearer)

subsection \<open>Acceptance\<close>

text \<open>
  C1 (as amended). For a request to a non-public path of an enabled verifier that has
  obtained its JWKS: the request is forwarded with the payload attached if and only
  if it presents a bearer token with a valid signature, the expected issuer and an
  unexpired expiry (the key set holds a key with the token's \<^verbatim>\<open>kid\<close> and the library's
  \<^verbatim>\<open>decode\<close> returns the payload) and the accepted audience set is empty or the
  token's \<^verbatim>\<open>aud\<close> matches a member of it; every other request is answered with status
  401. Three situations are left out, neither promised nor denied: a JWKS key that
  lacks one of the members \<^verbatim>\<open>kty\<close>, \<^verbatim>\<open>kid\<close>, \<^verbatim>\<open>use\<close>, \<^verbatim>\<open>n\<close>, \<^verbatim>\<open>e\<close>; a token whose
  \<^verbatim>\<open>aud\<close> is an array holding an accepted audience; and a library call on the
  presented token that raises another class than \<^verbatim>\<open>JWTError\<close>.
\<close>

theorem verifier_accepts_iff:
  assumes en: "enabled m" and np: "\<not> is_public_path m (path req)"
    and jw: "get_jwks m now fetch = (Inr (Some keys), m', k)"
    and wf: "list_all jwk_complete keys"
    and lib: "\<forall>token. bearer_token req = Some token \<longrightarrow> fails_as_jwt lib m now keys token"
    and arr: "\<forall>token. bearer_token req = Some token \<longrightarrow> \<not> array_aud_hit lib m now keys token"
  shows "(\<forall>payload. (fst (dispatch lib m now fetch req) = CallNext (Some payload))
            = (\<exists>token. bearer_token req = Some token
                 \<and> token_accepted lib m now keys token payload))
       \<and> ((\<exists>payload. fst (dispatch lib m now fetch req) = CallNext (Some payload))
            \<or> (\<exists>err. fst (dispatch lib m now fetch req) = JSONResponse 401 err))"
proof (cases "bearer_token req")
  case None
  from dispatch_no_bearer[OF en np None] obtain err
    where "dispatch lib m now fetch req = (JSONResponse 401 err, m, 0)" by blast
  with None show ?thesis by simp
next
  case (Some token)
  note d = dispatch_bearer[OF en np Some, of lib now fetch]
  from lib Some have lib': "fails_as_jwt lib m now keys token" by simp
  from arr Some have arr': "\<not> array_aud_hit lib m now keys token" by simp
  from validate_token_result[OF jw wf lib' arr'] show ?thesis
  proof
    assume "\<exists>payload. validate_token lib m now fetch token = (Inr payload, m', k)
            \<and> token_accepted lib m now keys token payload"
    then obtain p where p: "validate_token lib m now fetch token = (Inr p, m', k)"
      "token_accepted lib m now keys token p" by blast
    have f: "fst (dispatch lib m now fetch req) = CallNext (Some p)"
      using d p(1) by simp
    have u: "token_accepted lib m now keys token q \<Longrightarrow> q = p" for q
      using p(2) unfolding token_accepted_def by auto
    have "(fst (dispatch lib m now fetch req) = CallNext (Some q))
            = (\<exists>token. bearer_token req = Some token
                 \<and> token_accepted lib m now keys token q)" for q
      using f u p(2) Some by (metis outcome.inject(1) option.inject)
    with f show ?thesis by blast
  next
    assume "\<exists>r. validate_token lib m now fetch token = (Inl (JWTError r), m', k)
            \<and> (\<forall>payload. \<not> token_accepted lib m now keys token payload)"
    then obtain r where r: "validate_token lib m now fetch token = (Inl (JWTError r), m', k)"
      "\<forall>payload. \<not> token_accepted lib m now keys token payload" by blast
    have f: "fst (dispatch lib m now fetch req) = JSONResponse 401 ''invalid_token''"
      using d r(1) by simp
    have "(fst (dispatch lib m now fetch req) = CallNext (Some q))
            = (\<exists>token. bearer_token req = Some token
                 \<and> token_accepted lib m now keys token q)" for q
      using f r(2) Some by simp
    with f show ?thesis by blast
  qed
qed

theorem verifier_accepts_iff_witness:
  "enabled (sample_middleware (Some ''other''))
   \<and> \<not> is_public_path (sample_middleware (Some ''other'')) (path (sample_request ''tok''))
   \<and> get_jwks (sample_middleware (Some ''other'')) 10 (Some (Some sample_keys))
       = (Inr (Some sample_keys), sample_warm (Some ''other''), 1)
   \<and> list_all jwk_complete sample_keys
   \<and> bearer_token (sample_request ''tok'') = Some ''tok''
   \<and> fails_as_jwt sample_jose (sample_middleware (Some ''other'')) 10 sample_keys ''tok''
   \<and> \<not> array_aud_hit sample_jose (sample_middleware (Some ''other'')) 10 sample_keys ''tok''
   \<and> fst (dispatch sample_jose (sample_middleware (Some ''other'')) 10
            (Some (Some sample_keys)) (sample_request ''tok'')) = CallNext (Some sample_payload)"
proof -
  let ?m = "sample_middleware (Some ''other'')"
  have acc: "token_accepted sample_jose ?m 10 sample_keys ''tok'' sample_payload"
    unfolding token_accepted_def
    by (simp add: sample_jose_def sample_find_key sample_middleware_fields aud_matches_def
        sample_payload_def)
  have lib: "\<forall>token. bearer_token (sample_request ''tok'') = Some token
               \<longrightarrow> fails_as_jwt sample_jose ?m 10 sample_keys token"
    using sample_fails_as_jwt by blast
  have arr: "\<forall>token. bearer_token (sample_request ''tok'') = Some token
               \<longrightarrow> \<not> array_aud_hit sample_jose ?m 10 sample_keys token"
    using sample_no_array_aud by blast
  from verifier_accepts_iff[OF sample_enabled sample_not_public sample_get_jwks
      sample_keys_complete lib arr]
  have "fst (dispatch sample_jose ?m 10 (Some (Some sample_keys)) (sample_request ''tok''))
          = CallNext (Some sample_payload)"
    using acc sample_bearer by blast
  then show ?thesis
    using sample_enabled sample_not_public sample_get_jwks sample_keys_complete
      sample_bearer sample_fails_as_jwt sample_no_array_aud by blast
qed

text \<open>
  C1 as stated fails, at three inputs. A verifier with no accepted audience forwards a
  token whose \<^verbatim>\<open>aud\<close> is in no accepted set. A verifier that accepts \<open>other\<close> answers
  a token with a valid signature, issuer, expiry and \<^verbatim>\<open>aud\<close> \<open>other\<close> with status 500
  when the matching JWKS key carries \<^verbatim>\<open>kid\<close>, \<^verbatim>\<open>kty\<close>, \<^verbatim>\<open>n\<close>, \<^verbatim>\<open>e\<close> and no \<^verbatim>\<open>use\<close>. The
  same verifier answers a valid token whose \<^verbatim>\<open>aud\<close> is the array \<open>[other,
  second-api]\<close> with status 401.
\<close>

theorem verifier_empty_audience_counterexample:
  "valid_audiences (sample_middleware None) = []
   \<and> map_of sample_payload ''aud'' = Some (JStr ''other'')
   \<and> fst (dispatch sample_jose (sample_middleware None) 10 (Some (Some sample_keys))
            (sample_request ''tok'')) = CallNext (Some sample_payload)
   \<and> valid_audiences (sample_middleware (Some ''other'')) = [''other'']
   \<and> fst (dispatch sample_jose (sample_middleware (Some ''other'')) 10
            (Some (Some sample_keys_no_use)) (sample_request ''tok''))
       = JSONResponse 500 ''server_error''
   \<and> map_of multi_payload ''aud'' = Some (JStrs [''other'', ''second-api''])
   \<and> fst (dispatch sample_jose_multi (sample_middleware (Some ''other'')) 10
            (Some (Some sample_keys)) (sample_request ''multi''))
       = JSONResponse 401 ''invalid_token''"
proof -
  have v: "valid_audiences (sample_middleware None) = []"
    by (simp add: sample_middleware_fields)
  have d1: "validate_token sample_jose (sample_middleware None) 10 (Some (Some sample_keys)) ''tok''
             = (Inr sample_payload, sample_warm None, 1)"
    by (simp add: validate_token_def sample_get_jwks sample_jose_def sample_find_key
        sample_middleware_fields)
  have c1: "fst (dispatch sample_jose (sample_middleware None) 10 (Some (Some sample_keys))
            (sample_request ''tok'')) = CallNext (Some sample_payload)"
    using dispatch_bearer[OF sample_enabled sample_not_public sample_bearer] d1 by simp
  have j2: "get_jwks (sample_middleware (Some ''other'')) 10 (Some (Some sample_keys_no_use))
              = (Inr (Some sample_keys_no_use),
                 (sample_middleware (Some ''other''))
                   \<lparr>jwks_cache := Some (Some sample_keys_no_use), jwks_cache_time := Some 10\<rparr>, 1)"
    by (simp add: get_jwks_def cache_fresh_def sample_middleware_def middleware_init_def Let_def)
  have f2: "find_key sample_keys_no_use (Some (JStr ''k1'')) = Inl (KeyError ''use'')"
    by (simp add: sample_keys_no_use_def subscript_def make_rsa_key_def)
  have d2: "validate_token sample_jose (sample_middleware (Some ''other'')) 10
                   (Some (Some sample_keys_no_use)) ''tok''
             = (Inl (KeyError ''use''),
                (sample_middleware (Some ''other''))
                  \<lparr>jwks_cache := Some (Some sample_keys_no_use), jwks_cache_time := Some 10\<rparr>, 1)"
    by (simp add: validate_token_def j2 sample_jose_def f2)
  have c2: "fst (dispatch sample_jose (sample_middleware (Some ''other'')) 10
            (Some (Some sample_keys_no_use)) (sample_request ''tok''))
       = JSONResponse 500 ''server_error''"
    using dispatch_bearer[where lib = sample_jose and now = 10
          and fetch = "Some (Some sample_keys_no_use)"
          and m = "sample_middleware (Some ''other'')",
        OF sample_enabled sample_not_public sample_bearer] d2
    by simp
  have d3: "validate_token sample_jose_multi (sample_middleware (Some ''other'')) 10
              (Some (Some sample_keys)) ''multi''
             = (Inl (JWTError InvalidAudience), sample_warm (Some ''other''), 1)"
    by (simp add: validate_token_def sample_get_jwks sample_jose_multi_def sample_find_key
        sample_middleware_fields multi_payload_def aud_in_def)
  have c3: "fst (dispatch sample_jose_multi (sample_middleware (Some ''other'')) 10
            (Some (Some sample_keys)) (sample_request ''multi''))
       = JSONResponse 401 ''invalid_token''"
    using dispatch_bearer[OF sample_enabled sample_not_public sample_bearer_multi] d3 by simp
  from v c1 c2 c3 show ?thesis
    by (simp add: sample_payload_def multi_payload_def sample_middleware_fields)
qed

subsection \<open>Unknown key id\<close>

text \<open>
  C5. A request to a non-public path of an enabled verifier presents a bearer token
  whose header parses and whose \<^verbatim>\<open>kid\<close> equals the \<^verbatim>\<open>kid\<close> of no key of the current
  JWKS: the response is 401 with \<^verbatim>\<open>error = invalid_token\<close>. The verifier state and the
  number of JWKS requests are those of the one ordinary \<^verbatim>\<open>_get_jwks\<close> call: no
  request while the cache is fresh, one otherwise, and none forced by the miss.
\<close>

theorem unknown_kid_rejected:
  assumes en: "enabled m" and np: "\<not> is_public_path m (path req)"
    and bt: "bearer_token req = Some token"
    and jw: "get_jwks m now fetch = (Inr (Some keys), m', k)"
    and hd: "get_unverified_header lib token = Inr hdr"
    and absent: "\<forall>key \<in> set keys. \<exists>s. jwk_kid key = Some s \<and> Some (JStr s) \<noteq> map_of hdr ''kid''"
  shows "dispatch lib m now fetch req = (JSONResponse 401 ''invalid_token'', m', k)
         \<and> k = (if cache_fresh m now then 0 else 1)"
proof -
  have "find_key keys (map_of hdr ''kid'') = Inr None"
    using absent by (rule find_key_absent)
  with jw hd have "validate_token lib m now fetch token = (Inl (JWTError KeyNotFound), m', k)"
    by (simp add: validate_token_def)
  with dispatch_bearer[OF en np bt, of lib now fetch]
  have "dispatch lib m now fetch req = (JSONResponse 401 ''invalid_token'', m', k)" by simp
  moreover from jw have "k = (if cache_fresh m now then 0 else 1)"
    by (auto simp: get_jwks_def split: if_splits option.splits)
  ultimately show ?thesis by simp
qed

theorem unknown_kid_rejected_witness:
  "enabled (sample_warm None)
   \<and> \<not> is_public_path (sample_warm None) (path (sample_request ''old''))
   \<and> bearer_token (sample_request ''old'') = Some ''old''
   \<and> get_jwks (sample_warm None) 20 None = (Inr (Some sample_keys), sample_warm None, 0)
   \<and> get_unverified_header sample_jose ''old'' = Inr [(''alg'', JStr ''RS256''), (''kid'', JStr ''k0'')]
   \<and> dispatch sample_jose (sample_warm None) 20 None (sample_request ''old'')
       = (JSONResponse 401 ''invalid_token'', sample_warm None, 0)"
proof -
  have en: "enabled (sample_warm None)"
    by (simp add: sample_warm_def sample_enabled)
  have np: "\<not> is_public_path (sample_warm None) (path (sample_request ''old''))"
    using sample_not_public[of None "''old''"] by (simp add: sample_warm_def is_public_path_def)
  have jw: "get_jwks (sample_warm None) 20 None = (Inr (Some sample_keys), sample_warm None, 0)"
    by (simp add: get_jwks_def cache_fresh_def sample_warm_def sample_middleware_def
        middleware_init_def Let_def)
  have hd: "get_unverified_header sample_jose ''old''
              = Inr [(''alg'', JStr ''RS256''), (''kid'', JStr ''k0'')]"
    by (simp add: sample_jose_def)
  have ab: "\<forall>key \<in> set sample_keys. \<exists>s. jwk_kid key = Some s
              \<and> Some (JStr s) \<noteq> map_of [(''alg'', JStr ''RS256''), (''kid'', JStr ''k0'')] ''kid''"
    by (simp add: sample_keys_def)
  from unknown_kid_rejected[OF en np sample_bearer_old jw hd ab]
  have "dispatch sample_jose (sample_warm None) 20 None (sample_request ''old'')
          = (JSONResponse 401 ''invalid_token'', sample_warm None, 0)" by simp
  with en np sample_bearer_old jw hd show ?thesis by blast
qed

subsection \<open>No configured audience\<close>

text \<open>
  C10. A verifier constructed with neither an agent id nor an API-resource identifier
  (argument and environment variable both absent or empty) has an empty accepted
  audience list, and the audience check is skipped: a token whose key is found and
  which the library's check of signature, expiry and issuer accepts is forwarded with
  its payload, whatever the payload's \<^verbatim>\<open>aud\<close> is.
\<close>

theorem no_audience_configured_accepts_any_aud:
  assumes a1: "falsy aid" and a2: "falsy (ev ''APPOINTMENTS_APP_ID'')"
    and r1: "falsy ari" and r2: "falsy (ev ''API_RESOURCE_IDENTIFIER'')"
    and m: "m = (middleware_init ev url iss scope aid ari True)
                  \<lparr>jwks_cache := c, jwks_cache_time := t\<rparr>"
    and np: "\<not> is_public_path m (path req)"
    and bt: "bearer_token req = Some token"
    and jw: "get_jwks m now fetch = (Inr (Some keys), m', k)"
    and hd: "get_unverified_header lib token = Inr hdr"
    and fk: "find_key keys (map_of hdr ''kid'') = Inr (Some rsa)"
    and cl: "get_unverified_claims lib token = Inr up"
    and dc: "decode lib token rsa iss now = Inr payload"
  shows "valid_audiences m = []
         \<and> dispatch lib m now fetch req = (CallNext (Some payload), m', k)"
proof -
  have a: "str_or aid (getenv_default ev ''APPOINTMENTS_APP_ID'' []) = []"
    using a1 a2 by (auto simp: falsy_def str_or_def getenv_default_def split: option.splits)
  have r: "str_or ari (getenv_default ev ''API_RESOURCE_IDENTIFIER'' []) = []"
    using r1 r2 by (auto simp: falsy_def str_or_def getenv_default_def split: option.splits)
  have v: "valid_audiences m = []" and i: "issuer m = iss" and en: "enabled m"
    using a r by (simp_all add: m middleware_init_def Let_def)
  from jw have keep: "issuer m' = issuer m" "valid_audiences m' = valid_audiences m"
    using get_jwks_keeps by blast+
  have "validate_token lib m now fetch token = (Inr payload, m', k)"
    using jw hd fk cl dc keep v i by (simp add: validate_token_def)
  with dispatch_bearer[OF en np bt, of lib now fetch] v show ?thesis by simp
qed

theorem no_audience_configured_accepts_any_aud_witness:
  "falsy None \<and> falsy (Map.empty ''APPOINTMENTS_APP_ID'')
   \<and> falsy (Map.empty ''API_RESOURCE_IDENTIFIER'')
   \<and> \<not> is_public_path (sample_middleware None) (path (sample_request ''tok''))
   \<and> bearer_token (sample_request ''tok'') = Some ''tok''
   \<and> get_jwks (sample_middleware None) 10 (Some (Some sample_keys))
       = (Inr (Some sample_keys), sample_warm None, 1)
   \<and> decode sample_jose ''tok''
        \<lparr> rsa_kty = ''RSA'', rsa_kid = ''k1'', rsa_use = ''sig'', rsa_n = ''N1'', rsa_e = ''AQAB'' \<rparr>
        ''idp'' 10 = Inr sample_payload
   \<and> map_of sample_payload ''aud'' = Some (JStr ''other'')
   \<and> dispatch sample_jose (sample_middleware None) 10 (Some (Some sample_keys))
        (sample_request ''tok'') = (CallNext (Some sample_payload), sample_warm None, 1)"
proof -
  have f: "falsy None" "falsy (Map.empty ''APPOINTMENTS_APP_ID'')"
    "falsy (Map.empty ''API_RESOURCE_IDENTIFIER'')"
    by (simp_all add: falsy_def)
  have m: "sample_middleware None
             = (middleware_init Map.empty ''https://idp/jwks'' ''idp'' ''appointments:read''
                  None None True)\<lparr>jwks_cache := None, jwks_cache_time := None\<rparr>"
    by (simp add: sample_middleware_def middleware_init_def Let_def)
  have hd: "get_unverified_header sample_jose ''tok''
              = Inr [(''alg'', JStr ''RS256''), (''kid'', JStr ''k1'')]"
    and cl: "get_unverified_claims sample_jose ''tok'' = Inr sample_payload"
    and dc: "decode sample_jose ''tok''
        \<lparr> rsa_kty = ''RSA'', rsa_kid = ''k1'', rsa_use = ''sig'', rsa_n = ''N1'', rsa_e = ''AQAB'' \<rparr>
        ''idp'' 10 = Inr sample_payload"
    by (simp_all add: sample_jose_def)
  have fk: "find_key sample_keys (map_of [(''alg'', JStr ''RS256''), (''kid'', JStr ''k1'')] ''kid'')
              = Inr (Some \<lparr> rsa_kty = ''RSA'', rsa_kid = ''k1'', rsa_use = ''sig'',
                             rsa_n = ''N1'', rsa_e = ''AQAB'' \<rparr>)"
    using sample_find_key by simp
  from no_audience_configured_accepts_any_aud[OF f(1) f(2) f(1) f(3) m sample_not_public
      sample_bearer sample_get_jwks hd fk cl dc]
  have "dispatch sample_jose (sample_middleware None) 10 (Some (Some sample_keys))
        (sample_request ''tok'') = (CallNext (Some sample_payload), sample_warm None, 1)"
    by simp
  moreover have "map_of sample_payload ''aud'' = Some (JStr ''other'')"
    by (simp add: sample_payload_def)
  ultimately show ?thesis
    using f sample_not_public[of None "''tok''"] sample_bearer sample_get_jwks[of None] dc
    by blast
qed

subsection \<open>Construction from the environment\<close>

text \<open>
  C7 (as amended). The factory never fails. The verifier it returns is enabled if and
  only if both the JWKS URL and the issuer are set and non-empty and the value of
  \<^verbatim>\<open>ASGARDEO_AUTH_ENABLED\<close> (\<^verbatim>\<open>true\<close> when unset), in lower case, is \<^verbatim>\<open>true\<close>; when the
  JWKS URL or the issuer is missing it prints its two warning lines and returns a
  disabled verifier, and it prints nothing otherwise.
\<close>

theorem factory_enabled_iff:
  "enabled (fst (create_jwt_middleware_from_env ev scope aid))
     = (\<not> falsy (ev ''ASGARDEO_JWKS_URL'') \<and> \<not> falsy (ev ''ASGARDEO_ISSUER'')
        \<and> lower (getenv_default ev ''ASGARDEO_AUTH_ENABLED'' ''true'') = ''true'')
   \<and> (snd (create_jwt_middleware_from_env ev scope aid) \<noteq> [])
     = (falsy (ev ''ASGARDEO_JWKS_URL'') \<or> falsy (ev ''ASGARDEO_ISSUER''))"
  by (simp add: create_jwt_middleware_from_env_def middleware_init_def Let_def)

theorem factory_enabled_iff_witness:
  "enabled (fst (create_jwt_middleware_from_env
      [''ASGARDEO_JWKS_URL'' \<mapsto> ''https://idp/jwks'', ''ASGARDEO_ISSUER'' \<mapsto> ''idp'']
      ''appointments:read'' None))
   \<and> snd (create_jwt_middleware_from_env
      [''ASGARDEO_JWKS_URL'' \<mapsto> ''https://idp/jwks'', ''ASGARDEO_ISSUER'' \<mapsto> ''idp'']
      ''appointments:read'' None) = []"
proof -
  let ?ev = "[''ASGARDEO_JWKS_URL'' \<mapsto> ''https://idp/jwks'', ''ASGARDEO_ISSUER'' \<mapsto> ''idp'']"
  have l: "lower ''true'' = ''true''" by code_simp
  have "\<not> falsy (?ev ''ASGARDEO_JWKS_URL'') \<and> \<not> falsy (?ev ''ASGARDEO_ISSUER'')
        \<and> lower (getenv_default ?ev ''ASGARDEO_AUTH_ENABLED'' ''true'') = ''true''"
    by (simp add: falsy_def getenv_default_def l)
  with factory_enabled_iff[of ?ev "''appointments:read''" None] show ?thesis by blast
qed

text \<open>
  C7 as stated fails: with an empty environment (no JWKS URL, no issuer, no flag) the
  factory returns a disabled verifier instead of failing, and that verifier forwards a
  request to a protected path that carries no token at all.
\<close>

theorem factory_missing_config_counterexample:
  "\<not> enabled (fst (create_jwt_middleware_from_env Map.empty ''appointments:read'' None))
   \<and> fst (dispatch sample_jose
            (fst (create_jwt_middleware_from_env Map.empty ''appointments:read'' None))
            0 None \<lparr> path = ''/'', authorization = None \<rparr>) = CallNext None"
  by (simp add: create_jwt_middleware_from_env_def middleware_init_def Let_def falsy_def
      dispatch_def)

section \<open>Properties of the token exchanger and of the orchestrator tool\<close>

lemma exchange_request_grant:
  "map_of (req_data (exchange_request te master cid secret sc)) ''grant_type''
     = Some ''urn:ietf:params:oauth:grant-type:token-exchange''"
  "map_of (req_data (exchange_request te master cid secret sc)) ''subject_token'' = Some master"
  by (simp_all add: exchange_request_def Let_def)

lemma get_actor_token_trace:
  "get_actor_token te server cid secret = (r, tr) \<Longrightarrow>
     tr = [(actor_token_request te cid secret, server (actor_token_request te cid secret))]"
  by (auto simp: get_actor_token_def Let_def split: if_splits option.splits)

lemma exchange_uncached_Inr:
  assumes "exchange_uncached te ev server st master name cid sc = (Inr tok, te', tr)"
  shows "\<exists>secret j.
           get_agent_secret ev name = Some secret
           \<and> status_code (server (exchange_request te master cid secret sc)) = 200
           \<and> json_of (server (exchange_request te master cid secret sc)) = Some j
           \<and> access_token j = Some tok
           \<and> te' = te\<lparr>token_cache := (token_cache te)(name \<mapsto>
                       \<lparr> entry_token = tok,
                         entry_expiry = st + (case expires_in j of None \<Rightarrow> 3600 | Some d \<Rightarrow> d) - 60 \<rparr>)\<rparr>
           \<and> tr = [(actor_token_request te cid secret, server (actor_token_request te cid secret)),
                   (exchange_request te master cid secret sc,
                    server (exchange_request te master cid secret sc))]"
proof -
  from assms obtain secret where s: "get_agent_secret ev name = Some secret"
    by (auto simp: exchange_uncached_def split: option.splits)
  from assms s obtain a tr1 where a: "get_actor_token te server cid secret = (Inr a, tr1)"
    by (auto simp: exchange_uncached_def split: prod.splits sum.splits)
  have tr1: "tr1 = [(actor_token_request te cid secret, server (actor_token_request te cid secret))]"
    using a by (rule get_actor_token_trace)
  let ?rs = "server (exchange_request te master cid secret sc)"
  from assms s a have st: "status_code ?rs = 200"
    by (auto simp: exchange_uncached_def Let_def split: if_splits)
  from assms s a st obtain j where j: "json_of ?rs = Some j"
    by (auto simp: exchange_uncached_def Let_def split: option.splits)
  from assms s a st j have tok: "access_token j = Some tok"
    by (auto simp: exchange_uncached_def Let_def split: option.splits)
  from assms s a st j tok tr1 show ?thesis
    by (simp add: exchange_uncached_def Let_def)
qed

lemma exchange_uncached_Inl:
  assumes "exchange_uncached te ev server st master name cid sc = (Inl x, te', tr)"
  shows "te' = te"
  using assms
  by (auto simp: exchange_uncached_def get_actor_token_def Let_def
      split: option.splits prod.splits sum.splits if_splits)

lemma sample_secret: "get_agent_secret sample_env ''Pet Vaccination Assistant'' = Some ''s3cret''"
  by code_simp

lemma sample_actor:
  "sample_idp (actor_token_request te cid secret)
     = \<lparr> status_code = 200, text_of = ''ok'',
         json_of = Some \<lparr> access_token = Some ''ACTOR'', expires_in = Some 3600,
                          refresh_token = None, error_code = None \<rparr> \<rparr>"
  by (simp add: sample_idp_def actor_token_request_def)

lemma sample_exchange:
  "sample_idp (exchange_request te master cid secret sc)
     = \<lparr> status_code = 200, text_of = ''ok'',
         json_of = Some \<lparr> access_token = Some ''DELEGATED'', expires_in = Some 3600,
                          refresh_token = None, error_code = None \<rparr> \<rparr>"
  by (simp add: sample_idp_def exchange_request_grant)

lemma sample_uncached:
  "exchange_uncached te sample_env sample_idp st master ''Pet Vaccination Assistant'' cid sc
     = (Inr ''DELEGATED'',
        te\<lparr>token_cache := (token_cache te)(''Pet Vaccination Assistant'' \<mapsto>
              \<lparr> entry_token = ''DELEGATED'', entry_expiry = st + 3600 - 60 \<rparr>)\<rparr>,
        [(actor_token_request te cid ''s3cret'', sample_idp (actor_token_request te cid ''s3cret'')),
         (exchange_request te master cid ''s3cret'' sc,
          sample_idp (exchange_request te master cid ''s3cret'' sc))])"
  by (simp add: exchange_uncached_def sample_secret get_actor_token_def Let_def sample_actor
      sample_exchange)

lemma issued_mono: "issued_by_exchange master tr \<subseteq> issued_by_exchange master (tr @ tr')"
  by (auto simp: issued_by_exchange_def)

lemma issued_mono': "issued_by_exchange master tr' \<subseteq> issued_by_exchange master (tr @ tr')"
  by (auto simp: issued_by_exchange_def)

lemma exchange_uncached_issued:
  assumes "exchange_uncached te ev server st master name cid sc = (Inr tok, te', tr)"
  shows "tok \<in> issued_by_exchange master tr"
proof -
  from exchange_uncached_Inr[OF assms] obtain secret j where
    st: "status_code (server (exchange_request te master cid secret sc)) = 200"
    and j: "json_of (server (exchange_request te master cid secret sc)) = Some j"
    and a: "access_token j = Some tok"
    and tr: "tr = [(actor_token_request te cid secret, server (actor_token_request te cid secret)),
                   (exchange_request te master cid secret sc,
                    server (exchange_request te master cid secret sc))]"
    by blast
  show ?thesis
    unfolding issued_by_exchange_def tr
    using st j a exchange_request_grant[of te master cid secret sc] by auto
qed

lemma exchange_uncached_cache:
  assumes "exchange_uncached te ev server st master name cid sc = (r, te', tr)"
    and "token_cache te' nm = Some en"
  shows "token_cache te nm = Some en \<or> r = Inr (entry_token en)"
proof (cases r)
  case (Inl x)
  with assms(1) have "te' = te" using exchange_uncached_Inl by blast
  with assms(2) show ?thesis by simp
next
  case (Inr tok)
  from exchange_uncached_Inr[OF assms(1)[unfolded Inr]] obtain e where
    "te' = te\<lparr>token_cache := (token_cache te)(name \<mapsto> \<lparr> entry_token = tok, entry_expiry = e \<rparr>)\<rparr>"
    by blast
  with assms(2) Inr show ?thesis by (auto split: if_splits)
qed

lemma exchange_token_for_agent_props:
  assumes x: "exchange_token_for_agent te ev server now st master name cid sc = (r, te', tr)"
    and inv: "\<forall>nm en. token_cache te nm = Some en \<longrightarrow> entry_token en \<in> S"
  shows "(\<forall>tok. r = Inr tok \<longrightarrow> tok \<in> S \<union> issued_by_exchange master tr)
       \<and> (\<forall>nm en. token_cache te' nm = Some en \<longrightarrow>
             entry_token en \<in> S \<union> issued_by_exchange master tr)"
proof -
  obtain cached te1 where c: "get_cached_token te now name = (cached, te1)"
    by (cases "get_cached_token te now name")
  have c1: "\<forall>nm en. token_cache te1 nm = Some en \<longrightarrow> token_cache te nm = Some en"
    using c by (auto simp: get_cached_token_def split: option.splits if_splits)
  have c2: "\<forall>tok. cached = Some tok \<longrightarrow> tok \<in> S"
    using c inv by (auto simp: get_cached_token_def split: option.splits if_splits)
  show ?thesis
  proof (cases "falsy cached")
    case False
    then obtain tok where tok: "cached = Some tok" "tok \<noteq> []"
      by (auto simp: falsy_def split: option.splits)
    with x c False have "r = Inr tok" "te' = te1" "tr = []"
      by (simp_all add: exchange_token_for_agent_def)
    with tok c1 c2 inv show ?thesis by auto
  next
    case True
    with x c have u: "exchange_uncached te1 ev server st master name cid sc = (r, te', tr)"
      by (simp add: exchange_token_for_agent_def)
    have a: "\<forall>tok. r = Inr tok \<longrightarrow> tok \<in> issued_by_exchange master tr"
    proof (intro allI impI)
      fix tok assume "r = Inr tok"
      with u have e: "exchange_uncached te1 ev server st master name cid sc = (Inr tok, te', tr)"
        by simp
      show "tok \<in> issued_by_exchange master tr"
        using exchange_uncached_issued[OF e] by simp
    qed
    have b: "\<forall>nm en. token_cache te' nm = Some en \<longrightarrow>
               token_cache te1 nm = Some en \<or> r = Inr (entry_token en)"
      using exchange_uncached_cache[OF u] by simp
    from a b c1 inv show ?thesis by blast
  qed
qed

lemma sample_first_exchange:
  "exchange_token_for_agent sample_exchanger sample_env sample_idp 0 1 ''MASTER''
      ''Pet Vaccination Assistant'' ''VAX1'' ''vaccination:read''
     = (Inr ''DELEGATED'', sample_cached,
        [(actor_token_request sample_exchanger ''VAX1'' ''s3cret'',
          sample_idp (actor_token_request sample_exchanger ''VAX1'' ''s3cret'')),
         (exchange_request sample_exchanger ''MASTER'' ''VAX1'' ''s3cret'' ''vaccination:read'',
          sample_idp (exchange_request sample_exchanger ''MASTER'' ''VAX1'' ''s3cret''
             ''vaccination:read''))])"
proof -
  have c: "get_cached_token sample_exchanger 0 ''Pet Vaccination Assistant''
             = (None, sample_exchanger)"
    by (simp add: get_cached_token_def sample_exchanger_def token_exchanger_init_def)
  show ?thesis
    by (simp add: exchange_token_for_agent_def c falsy_def sample_uncached sample_cached_def)
qed

lemma sample_talk_first:
  "talk_to_agent sample_globals sample_env sample_idp 0 1 ''Pet Vaccination Assistant''
          ''What vaccines do dogs need?''
        = (Sent (Some ''Bearer DELEGATED''), sample_after,
           [(actor_token_request sample_exchanger ''VAX1'' ''s3cret'',
             sample_idp (actor_token_request sample_exchanger ''VAX1'' ''s3cret'')),
            (exchange_request sample_exchanger ''MASTER'' ''VAX1'' ''s3cret'' ''vaccination:read'',
             sample_idp (exchange_request sample_exchanger ''MASTER'' ''VAX1'' ''s3cret''
               ''vaccination:read''))])"
  by (simp add: talk_to_agent_def sample_globals_def falsy_def sample_first_exchange
      send_message_def sample_after_def)

lemma sample_talk_second:
  "talk_to_agent sample_after sample_env sample_idp 100000 100001
        ''Pet Vaccination Assistant'' ''What vaccines do dogs need?''
       = (Sent (Some ''Bearer DELEGATED''), sample_after, [])"
  by (simp add: talk_to_agent_def sample_after_def sample_globals_def send_message_def)

lemma sample_session:
  "session sample_globals [sample_call 0, sample_call 100000]
     = ([Sent (Some ''Bearer DELEGATED''), Sent (Some ''Bearer DELEGATED'')], sample_after,
        [(actor_token_request sample_exchanger ''VAX1'' ''s3cret'',
          sample_idp (actor_token_request sample_exchanger ''VAX1'' ''s3cret'')),
         (exchange_request sample_exchanger ''MASTER'' ''VAX1'' ''s3cret'' ''vaccination:read'',
          sample_idp (exchange_request sample_exchanger ''MASTER'' ''VAX1'' ''s3cret''
            ''vaccination:read''))])"
  by (simp add: sample_call_def sample_talk_first sample_talk_second)

lemma talk_to_agent_step:
  assumes inv: "tokens_from_exchange master tr0 g"
    and step: "talk_to_agent g ev server now st name content = (r, g', tr)"
  shows "tokens_from_exchange master (tr0 @ tr) g'
       \<and> (\<forall>hdr. r = Sent hdr \<longrightarrow>
             (\<exists>t \<in> issued_by_exchange master (tr0 @ tr).
                hdr = (if t = [] then None else Some (''Bearer '' @ t))))"
proof -
  from inv have m: "MASTER_TOKEN g = Some master"
    and d: "\<And>nm t. DELEGATED_TOKENS g nm = Some t \<Longrightarrow> t \<in> issued_by_exchange master tr0"
    and c: "\<And>te nm en. TOKEN_EXCHANGER g = Some te \<Longrightarrow> token_cache te nm = Some en \<Longrightarrow>
             entry_token en \<in> issued_by_exchange master tr0"
    by (auto simp: tokens_from_exchange_def)
  have keep: "tokens_from_exchange master (tr0 @ tr) g"
    using inv issued_mono[of master tr0 tr] by (auto simp: tokens_from_exchange_def)
  consider (unknown) "name \<notin> KNOWN_AGENTS g"
    | (cached) t where "name \<in> KNOWN_AGENTS g" "DELEGATED_TOKENS g name = Some t"
    | (noconf) "name \<in> KNOWN_AGENTS g" "DELEGATED_TOKENS g name = None"
        "TOKEN_EXCHANGER g = None \<or> AGENT_CONFIGS g name = None \<or> falsy (MASTER_TOKEN g)"
    | (exch) te cfg where "name \<in> KNOWN_AGENTS g" "DELEGATED_TOKENS g name = None"
        "TOKEN_EXCHANGER g = Some te" "AGENT_CONFIGS g name = Some cfg" "\<not> falsy (MASTER_TOKEN g)"
    by (cases "DELEGATED_TOKENS g name"; cases "TOKEN_EXCHANGER g"; cases "AGENT_CONFIGS g name")
       auto
  then show ?thesis
  proof cases
    case unknown
    with step have "g' = g" "tr = []" "r = ToolError (''Error: Agent '' @ name @ '' is not available'')"
      by (auto simp: talk_to_agent_def)
    with keep show ?thesis by simp
  next
    case cached
    with step have e: "g' = g" "tr = []" "r = send_message t"
      by (auto simp: talk_to_agent_def)
    from d[OF cached(2)] have "t \<in> issued_by_exchange master tr0" .
    with e keep show ?thesis by (auto simp: send_message_def)
  next
    case noconf
    with step have "g' = g" "tr = []" "\<exists>msg. r = ToolError msg"
      by (auto simp: talk_to_agent_def split: option.splits)
    with keep show ?thesis by auto
  next
    case exch
    obtain xr te' where x: "exchange_token_for_agent te ev server now st master name (app_id cfg)
        (cfg_required_scope cfg) = (xr, te', tr)"
      using step exch m
      by (cases "exchange_token_for_agent te ev server now st master name (app_id cfg)
        (cfg_required_scope cfg)")
         (auto simp: talk_to_agent_def split: sum.splits)
    have cinv: "\<forall>nm en. token_cache te nm = Some en \<longrightarrow> entry_token en \<in> issued_by_exchange master tr0"
      using c[OF exch(3)] by blast
    note p = exchange_token_for_agent_props[OF x cinv]
    have sub: "issued_by_exchange master tr0 \<union> issued_by_exchange master tr
                 \<subseteq> issued_by_exchange master (tr0 @ tr)"
      using issued_mono[of master tr0 tr] issued_mono'[of master tr tr0] by blast
    show ?thesis
    proof (cases xr)
      case (Inl e)
      with step exch m x have r: "\<exists>msg. r = ToolError msg" and g': "g' = g\<lparr>TOKEN_EXCHANGER := Some te'\<rparr>"
        by (auto simp: talk_to_agent_def)
      have "tokens_from_exchange master (tr0 @ tr) g'"
        unfolding tokens_from_exchange_def g'
        using m d p sub issued_mono[of master tr0 tr] by (auto; blast)
      with r show ?thesis by auto
    next
      case (Inr tok)
      with step exch m x have r: "r = send_message tok"
        and g': "g' = g\<lparr>TOKEN_EXCHANGER := Some te',
                         DELEGATED_TOKENS := (DELEGATED_TOKENS g)(name \<mapsto> tok)\<rparr>"
        by (auto simp: talk_to_agent_def)
      from p Inr have tok: "tok \<in> issued_by_exchange master (tr0 @ tr)"
        using sub by auto
      have "tokens_from_exchange master (tr0 @ tr) g'"
        unfolding tokens_from_exchange_def g'
        using m d p sub tok issued_mono[of master tr0 tr] by (auto; blast)
      with r tok show ?thesis by (auto simp: send_message_def)
    qed
  qed
qed


lemma session_invariant:
  assumes "tokens_from_exchange master tr0 g"
    and "session g calls = (results, g', tr)"
  shows "tokens_from_exchange master (tr0 @ tr) g'
       \<and> (\<forall>r \<in> set results. \<forall>hdr. r = Sent hdr \<longrightarrow>
             (\<exists>t \<in> issued_by_exchange master (tr0 @ tr).
                hdr = (if t = [] then None else Some (''Bearer '' @ t))))"
  using assms
proof (induction calls arbitrary: g tr0 results g' tr)
  case Nil
  then show ?case by simp
next
  case (Cons c cs)
  obtain r g1 tr1 where step: "talk_to_agent g (call_env c) (call_idp c) (call_time c)
      (call_store_time c) (call_agent c) (call_content c) = (r, g1, tr1)"
    by (cases "talk_to_agent g (call_env c) (call_idp c) (call_time c)
      (call_store_time c) (call_agent c) (call_content c)")
  obtain rs g2 tr2 where rest: "session g1 cs = (rs, g2, tr2)"
    by (cases "session g1 cs")
  from Cons.prems(2) step rest have eq: "results = r # rs" "g' = g2" "tr = tr1 @ tr2"
    by simp_all
  from talk_to_agent_step[OF Cons.prems(1) step]
  have inv1: "tokens_from_exchange master (tr0 @ tr1) g1"
    and h1: "\<forall>hdr. r = Sent hdr \<longrightarrow>
             (\<exists>t \<in> issued_by_exchange master (tr0 @ tr1).
                hdr = (if t = [] then None else Some (''Bearer '' @ t)))"
    by blast+
  from Cons.IH[OF inv1 rest]
  have inv2: "tokens_from_exchange master ((tr0 @ tr1) @ tr2) g2"
    and h2: "\<forall>r \<in> set rs. \<forall>hdr. r = Sent hdr \<longrightarrow>
             (\<exists>t \<in> issued_by_exchange master ((tr0 @ tr1) @ tr2).
                hdr = (if t = [] then None else Some (''Bearer '' @ t)))"
    by blast+
  have "issued_by_exchange master (tr0 @ tr1) \<subseteq> issued_by_exchange master ((tr0 @ tr1) @ tr2)"
    by (rule issued_mono)
  with h1 have h1': "\<forall>hdr. r = Sent hdr \<longrightarrow>
             (\<exists>t \<in> issued_by_exchange master ((tr0 @ tr1) @ tr2).
                hdr = (if t = [] then None else Some (''Bearer '' @ t)))"
    by blast
  from inv2 h1' h2 show ?case unfolding eq by simp
qed

subsection \<open>The exchanger's cache\<close>

text \<open>
  C4. After an exchange that stored a non-empty token at time \<open>st0\<close> with lifetime
  \<open>lifetime\<close> (the response's \<^verbatim>\<open>expires_in\<close>, 3600 when absent), a later call for the
  same service returns that token, leaves the exchanger unchanged and talks to the
  identity provider not at all as long as the clock is more than 60 seconds short of
  \<open>st0 + lifetime\<close>; from 60 seconds before \<open>st0 + lifetime\<close> on, the entry is dropped
  and the call is the uncached exchange, which sends requests whenever the service's
  secret is configured.
\<close>

theorem cached_token_reuse:
  assumes first: "exchange_uncached te0 ev0 server0 st0 master0 name cid0 sc0 = (Inr tok, te, tr0)"
    and ne: "tok \<noteq> []"
    and resp: "json_of (snd (last tr0)) = Some j"
    and life: "lifetime = (case expires_in j of None \<Rightarrow> 3600 | Some d \<Rightarrow> d)"
  shows "(current_time < st0 + lifetime - 60 \<longrightarrow>
            exchange_token_for_agent te ev server current_time st master name cid sc
              = (Inr tok, te, []))
       \<and> (st0 + lifetime - 60 \<le> current_time \<longrightarrow>
            exchange_token_for_agent te ev server current_time st master name cid sc
              = exchange_uncached (te\<lparr>token_cache := (token_cache te)(name := None)\<rparr>)
                  ev server st master name cid sc
            \<and> (get_agent_secret ev name \<noteq> None \<longrightarrow>
                 snd (snd (exchange_token_for_agent te ev server current_time st master
                             name cid sc)) \<noteq> []))"
proof -
  from exchange_uncached_Inr[OF first] obtain secret j' where
    j': "json_of (server0 (exchange_request te0 master0 cid0 secret sc0)) = Some j'"
    and te: "te = te0\<lparr>token_cache := (token_cache te0)(name \<mapsto>
                       \<lparr> entry_token = tok,
                         entry_expiry = st0 + (case expires_in j' of None \<Rightarrow> 3600 | Some d \<Rightarrow> d) - 60 \<rparr>)\<rparr>"
    and tr0: "tr0 = [(actor_token_request te0 cid0 secret, server0 (actor_token_request te0 cid0 secret)),
                   (exchange_request te0 master0 cid0 secret sc0,
                    server0 (exchange_request te0 master0 cid0 secret sc0))]"
    by blast
  from tr0 resp j' have "j' = j" by simp
  with te life have entry: "token_cache te name
      = Some \<lparr> entry_token = tok, entry_expiry = st0 + lifetime - 60 \<rparr>"
    by simp
  have hit: "current_time < st0 + lifetime - 60 \<Longrightarrow>
      exchange_token_for_agent te ev server current_time st master name cid sc = (Inr tok, te, [])"
    using entry ne by (simp add: exchange_token_for_agent_def get_cached_token_def falsy_def)
  have miss: "st0 + lifetime - 60 \<le> current_time \<Longrightarrow>
      exchange_token_for_agent te ev server current_time st master name cid sc
        = exchange_uncached (te\<lparr>token_cache := (token_cache te)(name := None)\<rparr>)
            ev server st master name cid sc"
    using entry by (simp add: exchange_token_for_agent_def get_cached_token_def falsy_def)
  have net: "get_agent_secret ev name \<noteq> None \<Longrightarrow>
      snd (snd (exchange_uncached te1 ev server st master name cid sc)) \<noteq> []" for te1
    by (auto simp: exchange_uncached_def get_actor_token_def Let_def
        split: option.splits prod.splits sum.splits if_splits)
  from hit miss net show ?thesis by simp
qed

theorem cached_token_reuse_witness:
  "fst (exchange_uncached sample_exchanger sample_env sample_idp 1 ''MASTER''
          ''Pet Vaccination Assistant'' ''VAX1'' ''vaccination:read'') = Inr ''DELEGATED''
   \<and> (100::real) < 1 + 3600 - 60
   \<and> exchange_token_for_agent sample_cached sample_env sample_idp 100 101 ''MASTER''
        ''Pet Vaccination Assistant'' ''VAX1'' ''vaccination:read''
       = (Inr ''DELEGATED'', sample_cached, [])
   \<and> (1::real) + 3600 - 60 \<le> 3541
   \<and> get_agent_secret sample_env ''Pet Vaccination Assistant'' \<noteq> None
   \<and> snd (snd (exchange_token_for_agent sample_cached sample_env sample_idp 3541 3542 ''MASTER''
        ''Pet Vaccination Assistant'' ''VAX1'' ''vaccination:read'')) \<noteq> []"
proof -
  let ?tr = "[(actor_token_request sample_exchanger ''VAX1'' ''s3cret'',
               sample_idp (actor_token_request sample_exchanger ''VAX1'' ''s3cret'')),
              (exchange_request sample_exchanger ''MASTER'' ''VAX1'' ''s3cret'' ''vaccination:read'',
               sample_idp (exchange_request sample_exchanger ''MASTER'' ''VAX1'' ''s3cret''
                 ''vaccination:read''))]"
  let ?j = "\<lparr> access_token = Some ''DELEGATED'', expires_in = Some 3600,
              refresh_token = None, error_code = None \<rparr>"
  have first: "exchange_uncached sample_exchanger sample_env sample_idp 1 ''MASTER''
          ''Pet Vaccination Assistant'' ''VAX1'' ''vaccination:read''
        = (Inr ''DELEGATED'', sample_cached, ?tr)"
    by (simp add: sample_uncached sample_cached_def)
  have ne: "''DELEGATED'' \<noteq> []" by simp
  have resp: "json_of (snd (last ?tr)) = Some ?j" by (simp add: sample_exchange)
  have life: "(3600::real) = (case expires_in ?j of None \<Rightarrow> 3600 | Some d \<Rightarrow> d)" by simp
  have s: "get_agent_secret sample_env ''Pet Vaccination Assistant'' \<noteq> None"
    by (simp add: sample_secret)
  note t = cached_token_reuse[OF first ne resp life]
  have a: "exchange_token_for_agent sample_cached sample_env sample_idp 100 101 ''MASTER''
        ''Pet Vaccination Assistant'' ''VAX1'' ''vaccination:read''
       = (Inr ''DELEGATED'', sample_cached, [])"
  proof -
    have "(100::real) < 1 + 3600 - 60" by simp
    with t[of 100 sample_env sample_idp 101 "''MASTER''" "''VAX1''" "''vaccination:read''"]
    show ?thesis by blast
  qed
  have b: "snd (snd (exchange_token_for_agent sample_cached sample_env sample_idp 3541 3542 ''MASTER''
        ''Pet Vaccination Assistant'' ''VAX1'' ''vaccination:read'')) \<noteq> []"
  proof -
    have "(1::real) + 3600 - 60 \<le> 3541" by simp
    with t[of 3541 sample_env sample_idp 3542 "''MASTER''" "''VAX1''" "''vaccination:read''"] s
    show ?thesis by blast
  qed
  from first a b s show ?thesis by simp
qed

subsection \<open>The actor token\<close>

text \<open>
  C3 (the code at a concrete input). An exchange for the vaccination agent: the
  client-credentials request is sent and answered with the actor token \<open>ACTOR\<close>, and
  the token-exchange request that follows carries neither an \<^verbatim>\<open>actor_token\<close> field
  nor the value \<open>ACTOR\<close> anywhere: the actor token is minted and then dropped.
\<close>

theorem exchange_omits_actor_token:
  "exchange_token_for_agent sample_exchanger sample_env sample_idp 0 1 ''MASTER''
      ''Pet Vaccination Assistant'' ''VAX1'' ''vaccination:read''
     = (Inr ''DELEGATED'', sample_cached,
        [(\<lparr> req_url = ''https://idp/token'',
            req_data = [(''grant_type'', ''client_credentials''), (''scope'', ''openid'')],
            req_auth = Some (Basic ''VAX1:s3cret'') \<rparr>,
          \<lparr> status_code = 200, text_of = ''ok'',
            json_of = Some \<lparr> access_token = Some ''ACTOR'', expires_in = Some 3600,
                             refresh_token = None, error_code = None \<rparr> \<rparr>),
         (\<lparr> req_url = ''https://idp/token'',
            req_data =
              [(''grant_type'', ''urn:ietf:params:oauth:grant-type:token-exchange''),
               (''subject_token'', ''MASTER''),
               (''subject_token_type'', ''urn:ietf:params:oauth:token-type:jwt''),
               (''requested_token_type'', ''urn:ietf:params:oauth:token-type:access_token''),
               (''scope'', ''vaccination:read'')],
            req_auth = Some (Basic ''VAX1:s3cret'') \<rparr>,
          \<lparr> status_code = 200, text_of = ''ok'',
            json_of = Some \<lparr> access_token = Some ''DELEGATED'', expires_in = Some 3600,
                             refresh_token = None, error_code = None \<rparr> \<rparr>)])"
proof -
  have r1: "actor_token_request sample_exchanger ''VAX1'' ''s3cret''
              = \<lparr> req_url = ''https://idp/token'',
                  req_data = [(''grant_type'', ''client_credentials''), (''scope'', ''openid'')],
                  req_auth = Some (Basic ''VAX1:s3cret'') \<rparr>"
    by (simp add: actor_token_request_def sample_exchanger_def token_exchanger_init_def)
  have r2: "exchange_request sample_exchanger ''MASTER'' ''VAX1'' ''s3cret'' ''vaccination:read''
              = \<lparr> req_url = ''https://idp/token'',
                  req_data =
                    [(''grant_type'', ''urn:ietf:params:oauth:grant-type:token-exchange''),
                     (''subject_token'', ''MASTER''),
                     (''subject_token_type'', ''urn:ietf:params:oauth:token-type:jwt''),
                     (''requested_token_type'', ''urn:ietf:params:oauth:token-type:access_token''),
                     (''scope'', ''vaccination:read'')],
                  req_auth = Some (Basic ''VAX1:s3cret'') \<rparr>"
    by (simp add: exchange_request_def sample_exchanger_def token_exchanger_init_def falsy_def)
  show ?thesis
    by (simp only: sample_first_exchange sample_actor sample_exchange) (simp add: r1 r2)
qed

subsection \<open>The tool's own cache\<close>

text \<open>
  C6 (the code at a concrete input). A first call of the tool at time 0 obtains a
  delegated token whose exchanger entry records the expiry 3541, and files it in
  \<^verbatim>\<open>DELEGATED_TOKENS\<close>. A second call at time 100000 sends that same token, without
  any exchange: the lookup in \<^verbatim>\<open>DELEGATED_TOKENS\<close> knows no expiry.
\<close>

theorem delegated_tokens_served_after_expiry:
  "fst (talk_to_agent sample_globals sample_env sample_idp 0 1 ''Pet Vaccination Assistant''
          ''What vaccines do dogs need?'') = Sent (Some ''Bearer DELEGATED'')
   \<and> fst (snd (talk_to_agent sample_globals sample_env sample_idp 0 1
          ''Pet Vaccination Assistant'' ''What vaccines do dogs need?'')) = sample_after
   \<and> map_option entry_expiry (token_cache sample_cached ''Pet Vaccination Assistant'') = Some 3541
   \<and> talk_to_agent sample_after sample_env sample_idp 100000 100001
        ''Pet Vaccination Assistant'' ''What vaccines do dogs need?''
       = (Sent (Some ''Bearer DELEGATED''), sample_after, [])"
proof -
  have e: "map_option entry_expiry (token_cache sample_cached ''Pet Vaccination Assistant'')
             = Some 3541"
    by (simp add: sample_cached_def)
  from sample_talk_first sample_talk_second e show ?thesis by simp
qed

lemma empty_token_actor:
  "empty_token_idp (actor_token_request te cid secret)
     = sample_idp (actor_token_request te cid secret)"
  by (simp add: empty_token_idp_def actor_token_request_def)

lemma empty_token_exchange:
  "empty_token_idp (exchange_request te master cid secret sc)
     = \<lparr> status_code = 200, text_of = ''ok'',
         json_of = Some \<lparr> access_token = Some [], expires_in = Some 3600,
                          refresh_token = None, error_code = None \<rparr> \<rparr>"
  by (simp add: empty_token_idp_def exchange_request_grant)

lemma empty_token_uncached:
  "exchange_uncached te sample_env empty_token_idp st master ''Pet Vaccination Assistant'' cid sc
     = (Inr [],
        te\<lparr>token_cache := (token_cache te)(''Pet Vaccination Assistant'' \<mapsto>
              \<lparr> entry_token = [], entry_expiry = st + 3600 - 60 \<rparr>)\<rparr>,
        [(actor_token_request te cid ''s3cret'',
          empty_token_idp (actor_token_request te cid ''s3cret'')),
         (exchange_request te master cid ''s3cret'' sc,
          empty_token_idp (exchange_request te master cid ''s3cret'' sc))])"
  by (simp add: exchange_uncached_def sample_secret get_actor_token_def Let_def
      empty_token_actor sample_actor empty_token_exchange)

lemma empty_token_talk_first:
  "talk_to_agent sample_globals sample_env empty_token_idp 0 1 ''Pet Vaccination Assistant''
          ''What vaccines do dogs need?''
        = (Sent None, empty_token_after,
           [(actor_token_request sample_exchanger ''VAX1'' ''s3cret'',
             empty_token_idp (actor_token_request sample_exchanger ''VAX1'' ''s3cret'')),
            (exchange_request sample_exchanger ''MASTER'' ''VAX1'' ''s3cret'' ''vaccination:read'',
             empty_token_idp (exchange_request sample_exchanger ''MASTER'' ''VAX1'' ''s3cret''
               ''vaccination:read''))])"
proof -
  have c: "get_cached_token sample_exchanger 0 ''Pet Vaccination Assistant''
             = (None, sample_exchanger)"
    by (simp add: get_cached_token_def sample_exchanger_def token_exchanger_init_def)
  have x: "exchange_token_for_agent sample_exchanger sample_env empty_token_idp 0 1 ''MASTER''
      ''Pet Vaccination Assistant'' ''VAX1'' ''vaccination:read''
     = exchange_uncached sample_exchanger sample_env empty_token_idp 1 ''MASTER''
      ''Pet Vaccination Assistant'' ''VAX1'' ''vaccination:read''"
    by (simp add: exchange_token_for_agent_def c falsy_def)
  show ?thesis
    by (simp add: talk_to_agent_def sample_globals_def falsy_def x empty_token_uncached
        send_message_def empty_token_after_def)
qed

lemma empty_token_talk_second:
  "talk_to_agent empty_token_after sample_env empty_token_idp 10 11
        ''Pet Vaccination Assistant'' ''What vaccines do dogs need?''
       = (Sent None, empty_token_after, [])"
  by (simp add: talk_to_agent_def empty_token_after_def sample_globals_def send_message_def)

lemma empty_token_session:
  "session sample_globals [empty_token_call 0, empty_token_call 10]
     = ([Sent None, Sent None], empty_token_after,
        [(actor_token_request sample_exchanger ''VAX1'' ''s3cret'',
          empty_token_idp (actor_token_request sample_exchanger ''VAX1'' ''s3cret'')),
         (exchange_request sample_exchanger ''MASTER'' ''VAX1'' ''s3cret'' ''vaccination:read'',
          empty_token_idp (exchange_request sample_exchanger ''MASTER'' ''VAX1'' ''s3cret''
            ''vaccination:read''))])"
  by (simp add: empty_token_call_def sample_call_def empty_token_talk_first
      empty_token_talk_second)

subsection \<open>Outbound calls\<close>

text \<open>
  C2 (as amended). In any session of the tool that starts with the master token set
  and both caches empty, every message sent to a downstream agent is built from an
  access token \<open>t\<close> that the identity provider issued in the session in answer to a
  token-exchange request for the master token: the message carries
  \<^verbatim>\<open>Authorization: Bearer t\<close> when \<open>t\<close> is non-empty, and goes out through the default
  client, with no \<^verbatim>\<open>Authorization\<close> header, when \<open>t\<close> is the empty string. The header
  is never built from the master token itself.
\<close>

theorem outbound_calls_carry_exchanged_token:
  assumes master: "MASTER_TOKEN g = Some master"
    and d0: "DELEGATED_TOKENS g = Map.empty"
    and c0: "\<forall>te. TOKEN_EXCHANGER g = Some te \<longrightarrow> token_cache te = Map.empty"
    and run: "session g calls = (results, g', tr)"
  shows "\<forall>r \<in> set results. \<forall>hdr. r = Sent hdr \<longrightarrow>
           (\<exists>t \<in> issued_by_exchange master tr.
              hdr = (if t = [] then None else Some (''Bearer '' @ t)))"
proof -
  have "tokens_from_exchange master [] g"
    using master d0 c0 by (auto simp: tokens_from_exchange_def)
  from session_invariant[OF this run] show ?thesis by simp
qed

theorem outbound_calls_carry_exchanged_token_witness:
  "MASTER_TOKEN sample_globals = Some ''MASTER''
   \<and> DELEGATED_TOKENS sample_globals = Map.empty
   \<and> TOKEN_EXCHANGER sample_globals = Some sample_exchanger
   \<and> token_cache sample_exchanger = Map.empty
   \<and> fst (session sample_globals [sample_call 0, sample_call 100000])
       = [Sent (Some ''Bearer DELEGATED''), Sent (Some ''Bearer DELEGATED'')]
   \<and> ''DELEGATED'' \<in> issued_by_exchange ''MASTER''
        (snd (snd (session sample_globals [sample_call 0, sample_call 100000])))
   \<and> fst (session sample_globals [empty_token_call 0, empty_token_call 10])
       = [Sent None, Sent None]
   \<and> [] \<in> issued_by_exchange ''MASTER''
        (snd (snd (session sample_globals [empty_token_call 0, empty_token_call 10])))"
proof -
  have m: "MASTER_TOKEN sample_globals = Some ''MASTER''"
    and d0: "DELEGATED_TOKENS sample_globals = Map.empty"
    and te: "TOKEN_EXCHANGER sample_globals = Some sample_exchanger"
    by (simp_all add: sample_globals_def)
  have tc: "token_cache sample_exchanger = Map.empty"
    by (simp add: sample_exchanger_def token_exchanger_init_def)
  have c0: "\<forall>te. TOKEN_EXCHANGER sample_globals = Some te \<longrightarrow> token_cache te = Map.empty"
    using te tc by simp
  obtain tr where run: "session sample_globals [sample_call 0, sample_call 100000]
      = ([Sent (Some ''Bearer DELEGATED''), Sent (Some ''Bearer DELEGATED'')], sample_after, tr)"
    using sample_session by blast
  from outbound_calls_carry_exchanged_token[OF m d0 c0 run]
  have "\<exists>t \<in> issued_by_exchange ''MASTER'' tr.
          Some ''Bearer DELEGATED'' = (if t = [] then None else Some (''Bearer '' @ t))"
    by simp
  then have a: "''DELEGATED'' \<in> issued_by_exchange ''MASTER'' tr"
    by (auto split: if_splits)
  obtain tr' where run': "session sample_globals [empty_token_call 0, empty_token_call 10]
      = ([Sent None, Sent None], empty_token_after, tr')"
    using empty_token_session by blast
  from outbound_calls_carry_exchanged_token[OF m d0 c0 run']
  have "\<exists>t \<in> issued_by_exchange ''MASTER'' tr'.
          None = (if t = [] then None else Some (''Bearer '' @ t))"
    by simp
  then have b: "[] \<in> issued_by_exchange ''MASTER'' tr'"
    by (auto split: if_splits)
  from a b run run' m d0 te tc show ?thesis by simp
qed

text \<open>
  C2 as stated fails: when the identity provider answers the token exchange with
  status 200 and an empty access token, \<^verbatim>\<open>exchange_token_for_agent\<close> returns the empty
  string, \<^verbatim>\<open>talk_to_agent\<close> stores it in \<^verbatim>\<open>DELEGATED_TOKENS\<close>, and \<^verbatim>\<open>if agent_token:\<close>
  sends the message through the default client: the call goes out with no
  \<^verbatim>\<open>Authorization\<close> header, in this call and in every later call to the same agent.
\<close>

theorem outbound_call_without_header_counterexample:
  "MASTER_TOKEN sample_globals = Some ''MASTER''
   \<and> DELEGATED_TOKENS sample_globals = Map.empty
   \<and> TOKEN_EXCHANGER sample_globals = Some sample_exchanger
   \<and> token_cache sample_exchanger = Map.empty
   \<and> empty_token_idp (exchange_request sample_exchanger ''MASTER'' ''VAX1'' ''s3cret''
         ''vaccination:read'')
       = \<lparr> status_code = 200, text_of = ''ok'',
           json_of = Some \<lparr> access_token = Some [], expires_in = Some 3600,
                            refresh_token = None, error_code = None \<rparr> \<rparr>
   \<and> fst (talk_to_agent sample_globals sample_env empty_token_idp 0 1
            ''Pet Vaccination Assistant'' ''What vaccines do dogs need?'') = Sent None
   \<and> fst (session sample_globals [empty_token_call 0, empty_token_call 10])
       = [Sent None, Sent None]"
proof -
  have g: "MASTER_TOKEN sample_globals = Some ''MASTER''"
    "DELEGATED_TOKENS sample_globals = Map.empty"
    "TOKEN_EXCHANGER sample_globals = Some sample_exchanger"
    by (simp_all add: sample_globals_def)
  have tc: "token_cache sample_exchanger = Map.empty"
    by (simp add: sample_exchanger_def token_exchanger_init_def)
  have s: "fst (session sample_globals [empty_token_call 0, empty_token_call 10])
             = [Sent None, Sent None]"
    by (simp only: empty_token_session fst_conv)
  have t: "fst (talk_to_agent sample_globals sample_env empty_token_idp 0 1
            ''Pet Vaccination Assistant'' ''What vaccines do dogs need?'') = Sent None"
    by (simp only: empty_token_talk_first fst_conv)
  from g tc s t empty_token_exchange show ?thesis by blast
qed

section \<open>Properties of the authenticators\<close>

lemma authenticate_user_stores:
  assumes "authenticate_user fuel ua endpoint server clock t0 st0 = Some (Inr tok, ua1, d1, p1)"
  shows "master_token ua1 = Some tok"
proof (cases "\<not> falsy (master_token ua) \<and> token_expiry ua \<noteq> None \<and> token_expiry ua \<noteq> Some 0
         \<and> t0 < the (token_expiry ua) - 300")
  case True
  with assms have "ua1 = ua \<and> tok = the (master_token ua)"
    by (auto simp: authenticate_user_def)
  with True show ?thesis by (auto simp: falsy_def split: option.splits)
next
  case False
  with assms show ?thesis
    by (auto simp: authenticate_user_def split: prod.splits sum.splits option.splits)
qed

lemma sample_poll:
  "poll_for_token 10 sample_user_authenticator sample_poll_server sample_clock ''DEV'' 5 300
       = Some (Inr master_json, 4, [5, 5, 5])"
  by (simp add: poll_for_token_def eval_nat_numeral sample_clock_def sample_poll_server_def
      pending_response_def Let_def)

lemma sample_authenticate_first:
  "authenticate_user 10 sample_user_authenticator sample_device_response sample_poll_server
      sample_clock 999 1020 = Some (Inr ''MASTER'', sample_user_authenticated, 1, 4)"
  by (simp add: authenticate_user_def sample_user_authenticator_def user_authenticator_init_def
      falsy_def initiate_device_flow_def sample_device_response_def
      sample_poll[unfolded sample_user_authenticator_def user_authenticator_init_def]
      master_json_def sample_user_authenticated_def)

lemma poll_loop_pending_step:
  assumes "status_code (server i (poll_request ua dcode)) \<noteq> 200"
    and "json_of (server i (poll_request ua dcode)) = Some j"
    and "error_code j = Some ''authorization_pending''"
    and "clock (Suc i) - clock 0 \<le> timeout"
  shows "poll_loop (Suc fuel) ua server clock dcode timeout interval i slept
           = poll_loop fuel ua server clock dcode timeout interval (Suc i) (slept @ [interval])"
  using assms by (simp add: Let_def)

lemma poll_loop_skip_pending:
  assumes "\<forall>i<n. status_code (server i (poll_request ua dcode)) \<noteq> 200
                   \<and> (\<exists>j. json_of (server i (poll_request ua dcode)) = Some j
                          \<and> error_code j = Some ''authorization_pending'')"
    and "\<forall>i<n. clock (Suc i) - clock 0 \<le> timeout"
  shows "poll_loop (n + fuel) ua server clock dcode timeout interval 0 []
           = poll_loop fuel ua server clock dcode timeout interval n (replicate n interval)"
  using assms
proof (induction n arbitrary: fuel)
  case 0
  then show ?case by simp
next
  case (Suc n)
  from Suc.prems have pend: "\<forall>i<n. status_code (server i (poll_request ua dcode)) \<noteq> 200
                   \<and> (\<exists>j. json_of (server i (poll_request ua dcode)) = Some j
                          \<and> error_code j = Some ''authorization_pending'')"
    and time: "\<forall>i<n. clock (Suc i) - clock 0 \<le> timeout"
    by simp_all
  from Suc.prems(1) obtain j where s: "status_code (server n (poll_request ua dcode)) \<noteq> 200"
    and j: "json_of (server n (poll_request ua dcode)) = Some j"
      "error_code j = Some ''authorization_pending''"
    by blast
  from Suc.prems(2) have t: "clock (Suc n) - clock 0 \<le> timeout" by simp
  have "poll_loop (Suc n + fuel) ua server clock dcode timeout interval 0 []
          = poll_loop (n + Suc fuel) ua server clock dcode timeout interval 0 []"
    by simp
  also have "\<dots> = poll_loop (Suc fuel) ua server clock dcode timeout interval n
                      (replicate n interval)"
    using Suc.IH[OF pend time] .
  also have "\<dots> = poll_loop fuel ua server clock dcode timeout interval (Suc n)
                      (replicate n interval @ [interval])"
    using poll_loop_pending_step[where server = server and clock = clock, OF s j t] .
  finally show ?case by (simp add: replicate_append_same)
qed

subsection \<open>Device-flow polling\<close>

text \<open>
  C8 (as amended). When the token endpoint answers the first \<open>n\<close> polls with a non-200
  status and \<^verbatim>\<open>authorization_pending\<close> and poll \<open>n + 1\<close> with status 200, the poll loop,
  given any fuel above \<open>n\<close>, terminates, and its result is decided by the clock. If no
  reading taken before a poll is more than \<open>timeout\<close> past the start, exactly \<open>n + 1\<close>
  polls are sent, \<open>interval\<close> is slept \<open>n\<close> times, and the body of response \<open>n + 1\<close>
  (which holds the access token) is returned. If the reading taken before poll
  \<open>k + 1\<close> is the first that is more than \<open>timeout\<close> past the start, the loop raises
  \<^verbatim>\<open>TimeoutError\<close> after exactly \<open>k\<close> polls and no token is returned. The scenario of
  the claim is \<open>n = 3\<close>: four polls and the fourth body, provided the timeout has not
  passed.
\<close>

theorem poll_pending_then_success:
  assumes pend: "\<forall>i<n. status_code (server i (poll_request ua dcode)) \<noteq> 200
                   \<and> (\<exists>j. json_of (server i (poll_request ua dcode)) = Some j
                          \<and> error_code j = Some ''authorization_pending'')"
    and succ: "status_code (server n (poll_request ua dcode)) = 200"
    and body: "json_of (server n (poll_request ua dcode)) = Some token_data"
    and fuel: "n < fuel"
  shows "((\<forall>i\<le>n. clock (Suc i) - clock 0 \<le> timeout) \<longrightarrow>
            poll_for_token fuel ua server clock dcode interval timeout
              = Some (Inr token_data, Suc n, replicate n interval))
       \<and> (\<forall>k\<le>n. (\<forall>i<k. clock (Suc i) - clock 0 \<le> timeout)
                  \<and> clock (Suc k) - clock 0 > timeout \<longrightarrow>
            poll_for_token fuel ua server clock dcode interval timeout
              = Some (Inl TimeoutError, k, replicate k interval))"
proof (intro conjI impI allI)
  assume time: "\<forall>i\<le>n. clock (Suc i) - clock 0 \<le> timeout"
  from fuel obtain k0 where k0: "fuel = n + Suc k0"
    by (metis add_Suc_right less_iff_Suc_add)
  from time have before: "\<forall>i<n. clock (Suc i) - clock 0 \<le> timeout"
    and last: "clock (Suc n) - clock 0 \<le> timeout" by simp_all
  have "poll_for_token fuel ua server clock dcode interval timeout
          = poll_loop (Suc k0) ua server clock dcode timeout interval n (replicate n interval)"
    unfolding poll_for_token_def k0 using poll_loop_skip_pending[where server = server and clock = clock, OF pend before] .
  also have "\<dots> = Some (Inr token_data, Suc n, replicate n interval)"
    using last succ body by (simp add: Let_def)
  finally show "poll_for_token fuel ua server clock dcode interval timeout
                  = Some (Inr token_data, Suc n, replicate n interval)" .
next
  fix k
  assume kn: "k \<le> n"
    and t: "(\<forall>i<k. clock (Suc i) - clock 0 \<le> timeout) \<and> clock (Suc k) - clock 0 > timeout"
  from kn fuel have "k < fuel" by simp
  then obtain k0 where k0: "fuel = k + Suc k0"
    by (metis add_Suc_right less_iff_Suc_add)
  from pend kn have pend': "\<forall>i<k. status_code (server i (poll_request ua dcode)) \<noteq> 200
                   \<and> (\<exists>j. json_of (server i (poll_request ua dcode)) = Some j
                          \<and> error_code j = Some ''authorization_pending'')"
    by simp
  from t have before: "\<forall>i<k. clock (Suc i) - clock 0 \<le> timeout"
    and late: "clock (Suc k) - clock 0 > timeout" by simp_all
  have "poll_for_token fuel ua server clock dcode interval timeout
          = poll_loop (Suc k0) ua server clock dcode timeout interval k (replicate k interval)"
    unfolding poll_for_token_def k0 using poll_loop_skip_pending[where server = server and clock = clock, OF pend' before] .
  also have "\<dots> = Some (Inl TimeoutError, k, replicate k interval)"
    using late by simp
  finally show "poll_for_token fuel ua server clock dcode interval timeout
                  = Some (Inl TimeoutError, k, replicate k interval)" .
qed

theorem poll_pending_then_success_witness:
  "status_code (sample_poll_server 0 (poll_request sample_user_authenticator ''DEV'')) = 400
   \<and> status_code (sample_poll_server 1 (poll_request sample_user_authenticator ''DEV'')) = 400
   \<and> status_code (sample_poll_server 2 (poll_request sample_user_authenticator ''DEV'')) = 400
   \<and> status_code (sample_poll_server 3 (poll_request sample_user_authenticator ''DEV'')) = 200
   \<and> json_of (sample_poll_server 3 (poll_request sample_user_authenticator ''DEV''))
       = Some master_json
   \<and> sample_clock 4 - sample_clock 0 \<le> 300
   \<and> poll_for_token 10 sample_user_authenticator sample_poll_server sample_clock ''DEV'' 5 300
       = Some (Inr master_json, 4, [5, 5, 5])
   \<and> slow_clock 3 - slow_clock 0 \<le> 300
   \<and> slow_clock 4 - slow_clock 0 > 300
   \<and> poll_for_token 10 sample_user_authenticator sample_poll_server slow_clock ''DEV'' 120 300
       = Some (Inl TimeoutError, 3, [120, 120, 120])"
proof -
  let ?rq = "poll_request sample_user_authenticator ''DEV''"
  have pend: "\<forall>i<3. status_code (sample_poll_server i ?rq) \<noteq> 200
                   \<and> (\<exists>j. json_of (sample_poll_server i ?rq) = Some j
                          \<and> error_code j = Some ''authorization_pending'')"
    by (simp add: sample_poll_server_def pending_response_def)
  have succ: "status_code (sample_poll_server 3 ?rq) = 200"
    and body: "json_of (sample_poll_server 3 ?rq) = Some master_json"
    by (simp_all add: sample_poll_server_def)
  have fuel: "3 < (10::nat)" by simp
  have time: "\<forall>i\<le>3. sample_clock (Suc i) - sample_clock 0 \<le> 300"
    by (auto simp: sample_clock_def)
  have slow: "(\<forall>i<3. slow_clock (Suc i) - slow_clock 0 \<le> 300)
                \<and> slow_clock (Suc 3) - slow_clock 0 > 300"
    by (auto simp: slow_clock_def)
  have le: "(3::nat) \<le> 3" by simp
  have r: "replicate 3 x = [x, x, x]" for x :: real
    by (simp add: eval_nat_numeral)
  note th = poll_pending_then_success[where server = sample_poll_server
      and ua = sample_user_authenticator and dcode = "''DEV''" and token_data = master_json
      and timeout = 300 and fuel = 10 and n = 3, OF pend succ body fuel]
  from th[where clock = sample_clock and interval = 5, THEN conjunct1, THEN mp, OF time]
  have a: "poll_for_token 10 sample_user_authenticator sample_poll_server sample_clock ''DEV''
             5 300 = Some (Inr master_json, 4, [5, 5, 5])"
    by (simp add: r)
  from th[where clock = slow_clock and interval = 120, THEN conjunct2, rule_format, OF le slow]
  have b: "poll_for_token 10 sample_user_authenticator sample_poll_server slow_clock ''DEV''
             120 300 = Some (Inl TimeoutError, 3, [120, 120, 120])"
    by (simp add: r)
  have s: "status_code (sample_poll_server 0 ?rq) = 400"
    "status_code (sample_poll_server 1 ?rq) = 400"
    "status_code (sample_poll_server 2 ?rq) = 400"
    by (simp_all add: sample_poll_server_def pending_response_def)
  have c: "sample_clock 4 - sample_clock 0 \<le> 300" "slow_clock 3 - slow_clock 0 \<le> 300"
    "slow_clock 4 - slow_clock 0 > 300"
    by (simp_all add: sample_clock_def slow_clock_def)
  from a b s c succ body show ?thesis by simp
qed

text \<open>
  C8 as stated fails: the claim names no condition on the clock, and the loop checks
  the wall-clock timeout before every poll. With the token endpoint answering
  \<^verbatim>\<open>authorization_pending\<close> three times and then success, a polling interval of 120
  seconds and the timeout of 300 seconds, the readings before the four polls are 0,
  120, 240 and 360 seconds past the start: three polls are sent and the loop raises
  \<^verbatim>\<open>TimeoutError\<close> in place of the fourth, so no token is returned.
\<close>

theorem poll_timeout_counterexample:
  "json_of (sample_poll_server 0 (poll_request sample_user_authenticator ''DEV''))
       = json_of pending_response
   \<and> json_of (sample_poll_server 1 (poll_request sample_user_authenticator ''DEV''))
       = json_of pending_response
   \<and> json_of (sample_poll_server 2 (poll_request sample_user_authenticator ''DEV''))
       = json_of pending_response
   \<and> status_code pending_response = 400
   \<and> text_of pending_response = ''authorization_pending''
   \<and> sample_poll_server 3 (poll_request sample_user_authenticator ''DEV'')
       = \<lparr> status_code = 200, text_of = ''ok'', json_of = Some master_json \<rparr>
   \<and> map slow_clock [0, 1, 2, 3, 4] = [1000, 1000, 1120, 1240, 1360]
   \<and> poll_for_token 10 sample_user_authenticator sample_poll_server slow_clock ''DEV'' 120 300
       = Some (Inl TimeoutError, 3, [120, 120, 120])"
  by (simp add: poll_for_token_def eval_nat_numeral slow_clock_def sample_poll_server_def
      pending_response_def Let_def)

subsection \<open>Repeated authentication\<close>

text \<open>
  C9 (as amended). Device flow: after \<^verbatim>\<open>authenticate_user\<close> has returned a non-empty
  master token, a further call made while the clock is more than 300 seconds short
  of the stored expiry returns the same token, leaves the authenticator unchanged
  and sends no request, neither to the device-authorization endpoint nor to the token
  endpoint, whatever those endpoints would answer.
\<close>

theorem device_authenticate_idempotent:
  assumes first: "authenticate_user fuel ua endpoint server clock t0 st0
                    = Some (Inr tok, ua1, d1, p1)"
    and ne: "tok \<noteq> []"
    and exp: "token_expiry ua1 = Some x"
    and nz: "x \<noteq> 0"
    and within: "current_time < x - 300"
  shows "authenticate_user fuel' ua1 endpoint' server' clock' current_time st'
           = Some (Inr tok, ua1, 0, 0)"
proof -
  from authenticate_user_stores[OF first] have "master_token ua1 = Some tok" .
  with ne exp nz within show ?thesis
    by (simp add: authenticate_user_def falsy_def)
qed

theorem device_authenticate_idempotent_witness:
  "authenticate_user 10 sample_user_authenticator sample_device_response sample_poll_server
      sample_clock 999 1020 = Some (Inr ''MASTER'', sample_user_authenticated, 1, 4)
   \<and> token_expiry sample_user_authenticated = Some 4620
   \<and> (2000::real) < 4620 - 300
   \<and> authenticate_user 0 sample_user_authenticated sample_device_response sample_poll_server
        sample_clock 2000 2020 = Some (Inr ''MASTER'', sample_user_authenticated, 0, 0)"
proof -
  have ne: "''MASTER'' \<noteq> []" by simp
  have exp: "token_expiry sample_user_authenticated = Some 4620"
    by (simp add: sample_user_authenticated_def)
  have nz: "(4620::real) \<noteq> 0" by simp
  have within: "(2000::real) < 4620 - 300" by simp
  from device_authenticate_idempotent[OF sample_authenticate_first ne exp nz within]
  have "authenticate_user 0 sample_user_authenticated sample_device_response sample_poll_server
        sample_clock 2000 2020 = Some (Inr ''MASTER'', sample_user_authenticated, 0, 0)" .
  with sample_authenticate_first exp within show ?thesis by blast
qed

text \<open>
  C9 as stated fails for the browser strategy: right after a successful call has
  stored its token, a second call sends a code-for-token request again, and fails
  altogether when the browser round trip brings no code.
\<close>

theorem browser_authenticate_not_idempotent_counterexample:
  "fst (browser_authenticate_user sample_browser_authenticator sample_idp (CallbackCode ''c1'') ''v1'')
     = Inr ''MASTER''
   \<and> fst (snd (browser_authenticate_user sample_browser_authenticator sample_idp
                 (CallbackCode ''c1'') ''v1'')) = sample_browser_authenticated
   \<and> ba_access_token sample_browser_authenticated = Some ''MASTER''
   \<and> map fst (snd (snd (browser_authenticate_user sample_browser_authenticated sample_idp
                 (CallbackCode ''c2'') ''v2'')))
       = [code_exchange_request sample_browser_authenticated ''c2'' ''v2'']
   \<and> fst (browser_authenticate_user sample_browser_authenticated sample_idp NoCallback ''v2'')
       = Inl (Exception ''Failed to receive authorization code'')"
proof -
  have i: "sample_idp (code_exchange_request ba code v)
            = \<lparr> status_code = 200, text_of = ''ok'',
                json_of = Some \<lparr> access_token = Some ''MASTER'', expires_in = Some 3600,
                                 refresh_token = None, error_code = None \<rparr> \<rparr>" for ba code v
    by (simp add: sample_idp_def code_exchange_request_def)
  show ?thesis
    by (simp add: browser_authenticate_user_def i Let_def sample_browser_authenticated_def)
qed

end
